theory Spec2Isabelle
  imports Complex_Main "HOL-Library.Char_ord" "HOL-Library.List_Lexorder"
begin
section \<open>Errors and array indexing\<close>

text \<open>
  The exceptions that the modelled code of \<^verbatim>\<open>audio_video_features.py\<close> can raise.
  Every function that can raise returns \<open>py_error + 'a\<close>, with \<open>Inl\<close> for the exception.
\<close>

datatype py_error =
  KeyError | IndexError | ValueError | OverflowError | TypeError | CvError | AssertionError | IOError

text \<open>
  An integer index into an axis of length \<open>n\<close>, as numpy resolves it: a negative index
  counts from the end, and an index outside \<open>[-n, n)\<close> raises IndexError.
\<close>

definition np_index :: "nat \<Rightarrow> int \<Rightarrow> py_error + nat" where
  "np_index n i =
     (let j = (if i < 0 then i + int n else i)
      in if 0 \<le> j \<and> j < int n then Inr (nat j) else Inl IndexError)"

text \<open>
  One bound of a slice \<open>a:b\<close> (step 1) on an axis of length \<open>n\<close>, as Python's
  \<^verbatim>\<open>slice.indices\<close> resolves it: a negative bound has \<open>n\<close> added to it, and the result
  is clipped to \<open>[0, n]\<close>. A slice never raises.
\<close>

definition slice_bound :: "nat \<Rightarrow> int \<Rightarrow> nat" where
  "slice_bound n i = (if i < 0 then nat (max (i + int n) 0) else nat (min i (int n)))"

section \<open>Label rasterizer\<close>

text \<open>
  Modelled from the spec: \<^verbatim>\<open>utilities.isnan\<close> is not part of the source under study. The
  spec speaks of labels "marked missing/NaN"; a label is therefore either the NaN
  marker or a string, and \<open>isnan\<close> recognises the marker.
\<close>

datatype label = NaN | Label string

fun isnan :: "label \<Rightarrow> bool" where
  "isnan NaN = True"
| "isnan (Label s) = False"

text \<open>
  \<^verbatim>\<open>labels_to_target\<close>: the target starts as \<open>classes_num\<close> zeros; the loop visits the
  labels in order. \<^verbatim>\<open>lb_to_idx[label]\<close> is a dictionary subscript and raises KeyError on
  a label that is not a key; \<^verbatim>\<open>target[classes_id] = 1\<close> is a numpy index assignment.
\<close>

fun labels_loop :: "(string \<rightharpoonup> int) \<Rightarrow> label list \<Rightarrow> bool list \<Rightarrow> py_error + bool list" where
  "labels_loop lb_to_idx [] target = Inr target"
| "labels_loop lb_to_idx (l # ls) target =
     (if \<not> isnan l then
        (case l of
           NaN \<Rightarrow> labels_loop lb_to_idx ls target
         | Label s \<Rightarrow>
            (case lb_to_idx s of
               None \<Rightarrow> Inl KeyError
             | Some classes_id \<Rightarrow>
                (case np_index (length target) classes_id of
                   Inl e \<Rightarrow> Inl e
                 | Inr j \<Rightarrow> labels_loop lb_to_idx ls (target[j := True]))))
      else labels_loop lb_to_idx ls target)"

definition labels_to_target :: "label list \<Rightarrow> nat \<Rightarrow> (string \<rightharpoonup> int) \<Rightarrow> py_error + bool list" where
  "labels_to_target labels classes_num lb_to_idx =
     labels_loop lb_to_idx labels (replicate classes_num False)"

text \<open>
  Floats. A Python float is an IEEE 754 double: a finite value, which is a rational
  number, one of the two infinities, or NaN. Signed zeros are not told apart.
\<close>

datatype pyfloat = Finite_float rat | Pos_inf | Neg_inf | Not_a_number

text \<open>
  Rounding to the nearest integer, a tie going to the even neighbour: what Python 3's
  \<^verbatim>\<open>round\<close> does to a finite float, and what the rounding of a significand does.
\<close>

definition round_half_even :: "rat \<Rightarrow> int" where
  "round_half_even x =
     (let f = \<lfloor>x\<rfloor>; d = x - of_int f
      in if d < 1 / 2 then f
         else if 1 / 2 < d then f + 1
         else if even f then f else f + 1)"

text \<open>
  The double nearest to a rational number. For \<open>x\<close> with \<open>2^e \<le> |x| < 2^(e+1)\<close> the
  doubles around \<open>x\<close> are the multiples of \<open>2^(e - 52)\<close>, or of \<open>2^(-1074)\<close> in the
  subnormal range; a result of magnitude \<open>2^1024\<close> or more is an infinity.
\<close>

definition pow2 :: "int \<Rightarrow> rat" where
  "pow2 e = (if 0 \<le> e then 2 ^ nat e else 1 / 2 ^ nat (- e))"

function bit_length :: "int \<Rightarrow> int" where
  "bit_length n = (if n \<le> 0 then 0 else 1 + bit_length (n div 2))"
  by pat_completeness auto
termination
  by (relation "measure nat") auto

definition floor_log2 :: "rat \<Rightarrow> int" where
  "floor_log2 x =
     (let (p, q) = quotient_of x;
          d = bit_length p - bit_length q
      in if pow2 d \<le> x then d else d - 1)"

definition round_to_double :: "rat \<Rightarrow> pyfloat" where
  "round_to_double x =
     (if x = 0 then Finite_float 0
      else
        (let e = floor_log2 \<bar>x\<bar>;
             quantum = pow2 (max e (- 1022) - 52);
             y = of_int (round_half_even (x / quantum)) * quantum
         in if y \<noteq> 0 \<and> 1024 \<le> floor_log2 \<bar>y\<bar>
            then (if 0 < x then Pos_inf else Neg_inf)
            else Finite_float y))"

text \<open>
  The product of two floats, the conversion of an integer to a float (OverflowError
  when it is too large), and \<^verbatim>\<open>int(round(x))\<close>, which raises ValueError on NaN and
  OverflowError on an infinity.
\<close>

fun float_mul :: "pyfloat \<Rightarrow> pyfloat \<Rightarrow> pyfloat" where
  "float_mul (Finite_float a) (Finite_float b) = round_to_double (a * b)"
| "float_mul Not_a_number y = Not_a_number"
| "float_mul x Not_a_number = Not_a_number"
| "float_mul (Finite_float a) Pos_inf =
     (if a = 0 then Not_a_number else if 0 < a then Pos_inf else Neg_inf)"
| "float_mul (Finite_float a) Neg_inf =
     (if a = 0 then Not_a_number else if 0 < a then Neg_inf else Pos_inf)"
| "float_mul Pos_inf (Finite_float b) =
     (if b = 0 then Not_a_number else if 0 < b then Pos_inf else Neg_inf)"
| "float_mul Neg_inf (Finite_float b) =
     (if b = 0 then Not_a_number else if 0 < b then Neg_inf else Pos_inf)"
| "float_mul Pos_inf Pos_inf = Pos_inf"
| "float_mul Pos_inf Neg_inf = Neg_inf"
| "float_mul Neg_inf Pos_inf = Neg_inf"
| "float_mul Neg_inf Neg_inf = Pos_inf"

definition float_of_int :: "int \<Rightarrow> py_error + pyfloat" where
  "float_of_int i =
     (case round_to_double (of_int i) of
        Finite_float y \<Rightarrow> Inr (Finite_float y)
      | _ \<Rightarrow> Inl OverflowError)"

fun int_round :: "pyfloat \<Rightarrow> py_error + int" where
  "int_round (Finite_float x) = Inr (round_half_even x)"
| "int_round Not_a_number = Inl ValueError"
| "int_round Pos_inf = Inl OverflowError"
| "int_round Neg_inf = Inl OverflowError"

text \<open>
  One entry of an item's strong label list: the dictionary with the keys
  \<^verbatim>\<open>'event'\<close>, \<^verbatim>\<open>'onset'\<close> and \<^verbatim>\<open>'offset'\<close>, the times being floats. The two frame
  numbers of \<^verbatim>\<open>events_to_target\<close> are \<^verbatim>\<open>int(round(onset * frames_per_second))\<close> and
  \<^verbatim>\<open>int(round(offset * frames_per_second)) + 1\<close>, the product being the float product
  of the time with the integer \<^verbatim>\<open>frames_per_second\<close>.
\<close>

record event_dict =
  event :: label
  onset :: pyfloat
  offset :: pyfloat

definition onset_frame :: "int \<Rightarrow> event_dict \<Rightarrow> py_error + int" where
  "onset_frame frames_per_second e =
     (case float_of_int frames_per_second of
        Inl err \<Rightarrow> Inl err
      | Inr fps \<Rightarrow> int_round (float_mul (onset e) fps))"

definition offset_frame :: "int \<Rightarrow> event_dict \<Rightarrow> py_error + int" where
  "offset_frame frames_per_second e =
     (case float_of_int frames_per_second of
        Inl err \<Rightarrow> Inl err
      | Inr fps \<Rightarrow>
          (case int_round (float_mul (offset e) fps) of
             Inl err \<Rightarrow> Inl err
           | Inr k \<Rightarrow> Inr (k + 1)))"

text \<open>
  \<^verbatim>\<open>target[onset_frame : offset_frame, class_id] = 1\<close> on a matrix held as a list of rows:
  the rows of the resolved slice get column \<open>c\<close> set.
\<close>

definition set_rows :: "nat \<Rightarrow> nat \<Rightarrow> nat \<Rightarrow> bool list list \<Rightarrow> bool list list" where
  "set_rows lo hi c target =
     map (\<lambda>(r, row). if lo \<le> r \<and> r < hi then row[c := True] else row) (enumerate 0 target)"

fun events_loop ::
  "(string \<rightharpoonup> int) \<Rightarrow> int \<Rightarrow> nat \<Rightarrow> event_dict list \<Rightarrow> bool list list \<Rightarrow> py_error + bool list list" where
  "events_loop lb_to_idx fps classes_num [] target = Inr target"
| "events_loop lb_to_idx fps classes_num (e # es) target =
     (if \<not> isnan (event e) then
        (case event e of
           NaN \<Rightarrow> events_loop lb_to_idx fps classes_num es target
         | Label s \<Rightarrow>
            (case lb_to_idx s of
               None \<Rightarrow> Inl KeyError
             | Some class_id \<Rightarrow>
                (case onset_frame fps e of
                   Inl err \<Rightarrow> Inl err
                 | Inr onset_frame' \<Rightarrow>
                    (case offset_frame fps e of
                       Inl err \<Rightarrow> Inl err
                     | Inr offset_frame' \<Rightarrow>
                        (case np_index classes_num class_id of
                           Inl err \<Rightarrow> Inl err
                         | Inr c \<Rightarrow>
                             events_loop lb_to_idx fps classes_num es
                               (set_rows (slice_bound (length target) onset_frame')
                                         (slice_bound (length target) offset_frame') c
                                  target))))))
      else events_loop lb_to_idx fps classes_num es target)"

definition events_to_target ::
  "event_dict list \<Rightarrow> nat \<Rightarrow> nat \<Rightarrow> int \<Rightarrow> (string \<rightharpoonup> int) \<Rightarrow> py_error + bool list list" where
  "events_to_target events frames_num classes_num frames_per_second lb_to_idx =
     events_loop lb_to_idx frames_per_second classes_num events
       (replicate frames_num (replicate classes_num False))"

section \<open>Video feature transform\<close>

text \<open>
  The arrays of this part carry their numpy shape and the provenance of their contents:
  which decoded frames they were made from, of an arbitrary type \<open>'p\<close>. Pixel values
  themselves (the result of bicubic interpolation) are not represented.
\<close>

record 'p image =
  im_shape :: "nat list"
  im_source :: 'p

record 'p ndarray =
  nd_shape :: "nat list"
  nd_sources :: "'p list"

text \<open>
  A video file is the list of its frames in order; \<open>None\<close> is a frame that the decoder
  cannot deliver. A file that cannot be opened is the empty list. The capture object
  \<^verbatim>\<open>cv2.VideoCapture\<close> is a state: the file, the position of the next frame, and whether
  \<^verbatim>\<open>release\<close> has been called.
\<close>

type_synonym 'p video = "'p option list"

record 'p video_capture =
  cap_video :: "'p video"
  cap_pos :: rat
  released :: bool

definition VideoCapture :: "'p video \<Rightarrow> 'p video_capture" where
  "VideoCapture v = \<lparr>cap_video = v, cap_pos = 0, released = False\<rparr>"

definition cap_get_frame_count :: "'p video_capture \<Rightarrow> rat" where
  "cap_get_frame_count cap = of_nat (length (cap_video cap))"

definition cap_set_pos_frames :: "'p video_capture \<Rightarrow> rat \<Rightarrow> 'p video_capture" where
  "cap_set_pos_frames cap x = cap\<lparr>cap_pos := x\<rparr>"

text \<open>
  \<^verbatim>\<open>cap.read()\<close> returns \<^verbatim>\<open>(ret, frame)\<close>: the frame at the position (its integer part),
  or \<^verbatim>\<open>(False, None)\<close> when there is none. It never raises.
\<close>

definition cap_read :: "'p video_capture \<Rightarrow> 'p video_capture \<times> bool \<times> 'p option" where
  "cap_read cap =
     (let k = \<lfloor>cap_pos cap\<rfloor>
      in if 0 \<le> k \<and> k < int (length (cap_video cap))
         then (case cap_video cap ! nat k of
                 None \<Rightarrow> (cap, False, None)
               | Some p \<Rightarrow> (cap\<lparr>cap_pos := of_int k + 1\<rparr>, True, Some p))
         else (cap, False, None))"

definition cap_release :: "'p video_capture \<Rightarrow> 'p video_capture" where
  "cap_release cap = cap\<lparr>released := True\<rparr>"

text \<open>
  \<^verbatim>\<open>cv2.resize(frame, dsize)\<close> with \<^verbatim>\<open>dsize = (columns, rows)\<close>: a decoded frame is a
  three-channel image, and the result has \<open>rows\<close> rows and \<open>columns\<close> columns. It raises
  on \<^verbatim>\<open>None\<close> and on an empty \<open>dsize\<close>. \<^verbatim>\<open>cv2.cvtColor(frame, COLOR_BGR2GRAY)\<close> drops
  the channel axis of a three-channel image.
\<close>

definition cv_resize :: "'p option \<Rightarrow> nat \<times> nat \<Rightarrow> py_error + 'p image" where
  "cv_resize frame dsize =
     (case frame of
        None \<Rightarrow> Inl CvError
      | Some p \<Rightarrow>
          if fst dsize = 0 \<or> snd dsize = 0 then Inl CvError
          else Inr \<lparr>im_shape = [snd dsize, fst dsize, 3], im_source = p\<rparr>)"

definition cv_cvtColor_BGR2GRAY :: "'p image \<Rightarrow> py_error + 'p image" where
  "cv_cvtColor_BGR2GRAY img =
     (if length (im_shape img) = 3 \<and> im_shape img ! 2 = 3
      then Inr (img\<lparr>im_shape := take 2 (im_shape img)\<rparr>)
      else Inl CvError)"

text \<open>
  \<^verbatim>\<open>np.array\<close> of a list of equally shaped images stacks them on a new leading axis; of
  the empty list it is an array of shape \<open>(0,)\<close>. \<^verbatim>\<open>transpose(axes)\<close> raises ValueError
  unless \<open>axes\<close> is a permutation of the array's axes.
\<close>

definition np_array :: "'p image list \<Rightarrow> 'p ndarray" where
  "np_array framearray =
     \<lparr>nd_shape = (case framearray of [] \<Rightarrow> [0] | f # _ \<Rightarrow> length framearray # im_shape f),
      nd_sources = map im_source framearray\<rparr>"

definition np_transpose :: "'p ndarray \<Rightarrow> nat list \<Rightarrow> py_error + 'p ndarray" where
  "np_transpose a axes =
     (if length axes = length (nd_shape a) \<and> distinct axes \<and>
         list_all (\<lambda>ax. ax < length (nd_shape a)) axes
      then Inr (a\<lparr>nd_shape := map (\<lambda>ax. nd_shape a ! ax) axes\<rparr>)
      else Inl ValueError)"

text \<open>
  The loop \<^verbatim>\<open>for i in range(depth)\<close> of \<^verbatim>\<open>video3d_frames\<close>. An exception of
  \<^verbatim>\<open>cv2.resize\<close> or \<^verbatim>\<open>cv2.cvtColor\<close> leaves the loop and the function at once: the
  result is the capture as it is then, and the error.
\<close>

fun frames_loop ::
  "rat list \<Rightarrow> nat \<Rightarrow> nat \<Rightarrow> bool \<Rightarrow> nat list \<Rightarrow> 'p video_capture \<Rightarrow> 'p image list \<Rightarrow>
     'p video_capture \<times> (py_error + 'p image list)" where
  "frames_loop frames width height color [] cap framearray = (cap, Inr framearray)"
| "frames_loop frames width height color (i # is) cap framearray =
     (let cap1 = cap_set_pos_frames cap (frames ! i);
          (cap2, ret, frame) = cap_read cap1
      in case cv_resize frame (height, width) of
           Inl e \<Rightarrow> (cap2, Inl e)
         | Inr frame' \<Rightarrow>
             if color then frames_loop frames width height color is cap2 (framearray @ [frame'])
             else (case cv_cvtColor_BGR2GRAY frame' of
                     Inl e \<Rightarrow> (cap2, Inl e)
                   | Inr gray \<Rightarrow>
                       frames_loop frames width height color is cap2 (framearray @ [gray])))"

text \<open>
  \<^verbatim>\<open>video3d_frames\<close>, on the content of the file at \<^verbatim>\<open>filename\<close>. The result is the final
  state of the capture together with the returned array or the exception raised.
\<close>

definition video3d_frames ::
  "'p video \<Rightarrow> nat \<Rightarrow> nat \<Rightarrow> nat \<Rightarrow> bool \<Rightarrow> bool \<Rightarrow> 'p video_capture \<times> (py_error + 'p ndarray)" where
  "video3d_frames filename width height depth color skip =
     (let cap = VideoCapture filename;
          nframe = cap_get_frame_count cap;
          frames = (if skip then map (\<lambda>x. of_nat x * nframe / of_nat depth) [0..<depth]
                    else map of_nat [0..<depth])
      in case frames_loop frames width height color [0..<depth] cap [] of
           (cap', Inl e) \<Rightarrow> (cap', Inl e)
         | (cap', Inr framearray) \<Rightarrow>
             (let cap'' = cap_release cap';
                  X = np_array framearray
              in if color then (cap'', np_transpose X [1, 2, 0, 3])
                 else (cap'', np_transpose X [1, 2, 0, 0])))"

section \<open>Audio feature transform\<close>

text \<open>
  The numeric library calls of \<^verbatim>\<open>LogMelExtractor\<close> are parameters of the model: the
  window, the mel filter bank, the short-time Fourier transform, and the two
  elementwise maps \<^verbatim>\<open>power_to_db(ref=1.0, amin=1e-10, top_db=None)\<close> and
  \<^verbatim>\<open>astype(np.float32)\<close>. Samples and spectra are real and complex numbers; a matrix is
  the list of its rows.
\<close>

record numeric_lib =
  np_hanning :: "nat \<Rightarrow> real list"
  librosa_filters_mel :: "nat \<Rightarrow> nat \<Rightarrow> nat \<Rightarrow> nat \<Rightarrow> nat \<Rightarrow> real list list"
  librosa_stft :: "real list \<Rightarrow> nat \<Rightarrow> nat \<Rightarrow> real list \<Rightarrow> complex list list"
  librosa_power_to_db :: "real \<Rightarrow> real"
  astype_float32 :: "real \<Rightarrow> real"

record LogMelExtractor =
  ex_window_size :: nat
  ex_hop_size :: nat
  ex_window_func :: "real list"
  ex_melW :: "real list list"

definition LogMelExtractor_init ::
  "numeric_lib \<Rightarrow> nat \<Rightarrow> nat \<Rightarrow> nat \<Rightarrow> nat \<Rightarrow> nat \<Rightarrow> nat \<Rightarrow> LogMelExtractor" where
  "LogMelExtractor_init lib sample_rate window_size hop_size mel_bins fmin fmax =
     \<lparr>ex_window_size = window_size,
      ex_hop_size = hop_size,
      ex_window_func = np_hanning lib window_size,
      ex_melW = transpose (librosa_filters_mel lib sample_rate window_size mel_bins fmin fmax)\<rparr>"

text \<open>
  \<^verbatim>\<open>np.dot\<close> of two matrices: ValueError unless every row of the left one is as long as
  the right one has rows.
\<close>

definition np_dot :: "real list list \<Rightarrow> real list list \<Rightarrow> py_error + real list list" where
  "np_dot A B =
     (if list_all (\<lambda>row. length row = length B) A
      then Inr (map (\<lambda>row. map (\<lambda>j. \<Sum>k\<leftarrow>[0..<length B]. row ! k * B ! k ! j)
                              [0..<(case B of [] \<Rightarrow> 0 | b # _ \<Rightarrow> length b)]) A)
      else Inl ValueError)"

definition transform :: "numeric_lib \<Rightarrow> LogMelExtractor \<Rightarrow> real list \<Rightarrow> py_error + real list list" where
  "transform lib self audio =
     (let window_size = ex_window_size self;
          hop_size = ex_hop_size self;
          window_func = ex_window_func self;
          stft_matrix = transpose (librosa_stft lib audio window_size hop_size window_func)
      in case np_dot (map (map (\<lambda>z. (cmod z)\<^sup>2)) stft_matrix) (ex_melW self) of
           Inl e \<Rightarrow> Inl e
         | Inr mel_spectrogram \<Rightarrow>
             (let logmel_spectrogram = map (map (librosa_power_to_db lib)) mel_spectrogram
              in Inr (map (map (astype_float32 lib)) logmel_spectrogram)))"

text \<open>
  Modelled from the spec: \<^verbatim>\<open>utilities.pad_truncate_sequence\<close> is not part of the source
  under study. The spec has the raw audio "pad-or-truncate[d] to exactly
  \<^verbatim>\<open>total_samples\<close>", the padding being zeros.
\<close>

definition pad_truncate_sequence :: "real list \<Rightarrow> nat \<Rightarrow> real list" where
  "pad_truncate_sequence x max_len =
     (if length x < max_len then x @ replicate (max_len - length x) 0 else take max_len x)"

section \<open>Configuration and collaborators\<close>

text \<open>
  The module \<^verbatim>\<open>config\<close> is not part of the source under study: its constants are the
  fields of a record, and every function that reads them takes the record.
\<close>

record config =
  cfg_sample_rate :: nat
  cfg_window_size :: nat
  cfg_hop_size :: nat
  cfg_mel_bins :: nat
  cfg_fmin :: nat
  cfg_fmax :: nat
  cfg_frames_per_second :: int
  cfg_frames_num :: nat
  cfg_total_samples :: nat
  cfg_classes_num :: nat
  cfg_lb_to_idx :: "string \<rightharpoonup> int"
  cfg_video_fps :: nat
  cfg_video_feature_dim :: nat

text \<open>
  One value of the dictionary that \<^verbatim>\<open>read_metadata\<close> returns, and its whole result: the
  dictionary (a list of key and value, the keys distinct) and the two flags.
\<close>

record item_labels =
  weak_labels :: "label list"
  strong_labels :: "event_dict list"

record metadata =
  audio_dict :: "(string \<times> item_labels) list"
  has_weak_labels :: bool
  has_strong_labels :: bool

text \<open>
  What the code reaches outside itself: the path functions of \<^verbatim>\<open>os.path\<close>, the helpers
  of \<^verbatim>\<open>utilities\<close> that read the corpus, the video files by path, the shuffle of
  \<^verbatim>\<open>np.random.RandomState(1234)\<close> and the reduction \<^verbatim>\<open>calculate_scalar_of_tensor\<close>, once
  for each of the two kinds of array it is applied to.
\<close>

record ('p, 's) collaborators =
  path_join :: "string \<Rightarrow> string \<Rightarrow> string"
  path_dirname :: "string \<Rightarrow> string"
  get_relative_path_no_extension :: "string \<Rightarrow> string"
  read_metadata :: "string \<Rightarrow> metadata"
  read_audio :: "string \<Rightarrow> nat \<Rightarrow> py_error + real list"
  video_file :: "string \<Rightarrow> 'p video"
  random_shuffle :: "string list \<Rightarrow> string list"
  scalar_of_features :: "real list list list \<Rightarrow> py_error + 's \<times> 's"
  scalar_of_video_features :: "'p ndarray list \<Rightarrow> py_error + 's \<times> 's"

section \<open>Strings and paths\<close>

text \<open>
  \<^verbatim>\<open>s.replace('.wav', '.avi')\<close>: every occurrence, found from the left, not overlapping.
\<close>

fun replace_wav_avi :: "string \<Rightarrow> string" where
  "replace_wav_avi [] = []"
| "replace_wav_avi (c # cs) =
     (if take 4 (c # cs) = ''.wav'' then ''.avi'' @ replace_wav_avi (drop 3 cs)
      else c # replace_wav_avi cs)"

text \<open>\<^verbatim>\<open>'{}'.format(n)\<close> for an integer: its decimal digits, with a sign when negative.\<close>

fun str_nat :: "nat \<Rightarrow> string" where
  "str_nat n =
     (if n < 10 then [char_of (48 + n)] else str_nat (n div 10) @ [char_of (48 + n mod 10)])"

definition str_int :: "int \<Rightarrow> string" where
  "str_int i = (if i < 0 then CHR ''-'' # str_nat (nat (- i)) else str_nat (nat i))"

definition features_subdir :: "string \<Rightarrow> int \<Rightarrow> nat \<Rightarrow> string" where
  "features_subdir prefix frames_per_second mel_bins =
     prefix @ ''logmel_'' @ str_int frames_per_second @ ''frames_'' @ str_nat mel_bins @ ''melbins''"

text \<open>
  The two paths that both entry points build with \<^verbatim>\<open>os.path.join\<close>: the metadata file
  of a data split, and an archive under \<^verbatim>\<open>features\<close> or \<^verbatim>\<open>scalars\<close>.
\<close>

definition metadata_path_of ::
  "('p, 's) collaborators \<Rightarrow> string \<Rightarrow> string \<Rightarrow> string \<Rightarrow> string" where
  "metadata_path_of env dataset_dir data_type relative_name =
     (if data_type = ''validation''
      then path_join env (path_join env (path_join env dataset_dir ''metadata'') ''validation'')
             (relative_name @ ''.csv'')
      else path_join env (path_join env dataset_dir ''metadata'') (relative_name @ ''.csv''))"

definition archive_path_of ::
  "('p, 's) collaborators \<Rightarrow> string \<Rightarrow> string \<Rightarrow> string \<Rightarrow> int \<Rightarrow> nat \<Rightarrow> string \<Rightarrow> string" where
  "archive_path_of env workspace kind prefix frames_per_second mel_bins relative_name =
     path_join env
       (path_join env (path_join env workspace kind)
          (features_subdir prefix frames_per_second mel_bins))
       (relative_name @ ''.h5'')"

section \<open>The archive\<close>

text \<open>
  The content of the feature archive: the four datasets that are always there and the
  two that exist only when the metadata has the labels. A dataset is the list of its
  rows. The scalar archive has the two groups \<^verbatim>\<open>audio\<close> and \<^verbatim>\<open>video\<close>, each with \<^verbatim>\<open>mean\<close>
  and \<^verbatim>\<open>std\<close>.
\<close>

record 'p archive =
  audio_name :: "string list"
  feature :: "real list list list"
  video_name :: "string list"
  video_feature :: "'p ndarray list"
  weak_target :: "bool list list option"
  strong_target :: "bool list list list option"

record 's scalar_record =
  audio_mean :: 's
  audio_std :: 's
  video_mean :: 's
  video_std :: 's

datatype ('p, 's) h5_file = FeatureFile "'p archive" | ScalarFile "'s scalar_record"

text \<open>
  The file system: the folders that exist, the HDF5 files by path, and the log of the
  operations on it, the latest first.
\<close>

datatype io_event = Make_folder string | Open_read string | Open_write string

record ('p, 's) world =
  folders :: "string set"
  h5_files :: "string \<rightharpoonup> ('p, 's) h5_file"
  io_log :: "io_event list"

text \<open>
  Modelled from the spec: \<^verbatim>\<open>utilities.create_folder\<close> is not part of the source under
  study; it makes the folder exist.
\<close>

definition create_folder :: "string \<Rightarrow> ('p, 's) world \<Rightarrow> ('p, 's) world" where
  "create_folder fd w = w\<lparr>folders := insert fd (folders w), io_log := Make_folder fd # io_log w\<rparr>"

text \<open>
  A name stored with dtype \<^verbatim>\<open>'S64'\<close> keeps its first 64 bytes. \<^verbatim>\<open>resize\<close> of a dataset
  sets the number of its rows, new rows being filled with zeros.
\<close>

definition encode_S64 :: "string \<Rightarrow> string" where
  "encode_S64 name = take 64 name"

definition h5_resize :: "nat \<Rightarrow> 'a \<Rightarrow> 'a list \<Rightarrow> 'a list" where
  "h5_resize k fill rows = take k rows @ replicate (k - length rows) fill"

definition matrix_shape_is :: "nat \<Rightarrow> nat \<Rightarrow> 'a list list \<Rightarrow> bool" where
  "matrix_shape_is r c m \<longleftrightarrow> length m = r \<and> list_all (\<lambda>row. length row = c) m"

text \<open>
  \<^verbatim>\<open>dataset[n] = value\<close>, as \<^verbatim>\<open>h5py\<close> does it. When the row has no element, nothing is
  written. Otherwise the shape of the value is matched with the shape of the row from
  the last axis backwards: an axis of the value must have length \<open>1\<close> or the length of
  the row's axis, and axes of the value beyond those of the row must have length at
  most \<open>1\<close>; if not, TypeError. An axis of length \<open>1\<close> is repeated to fill the row.
\<close>

fun broadcastable_rev :: "nat list \<Rightarrow> nat list \<Rightarrow> bool" where
  "broadcastable_rev [] ts = True"
| "broadcastable_rev (s # ss) [] = list_all (\<lambda>k. k \<le> 1) (s # ss)"
| "broadcastable_rev (s # ss) (t # ts) = ((s = 1 \<or> s = t) \<and> broadcastable_rev ss ts)"

definition np_shape2 :: "'a list list \<Rightarrow> nat list" where
  "np_shape2 m = [length m, (case m of [] \<Rightarrow> 0 | row # _ \<Rightarrow> length row)]"

definition broadcast_matrix :: "nat \<Rightarrow> nat \<Rightarrow> 'a list list \<Rightarrow> 'a list list" where
  "broadcast_matrix r c m =
     map (\<lambda>i. map (\<lambda>j. m ! (if length m = 1 then 0 else i) ! (if length (m ! 0) = 1 then 0 else j))
                  [0..<c])
         [0..<r]"

definition h5_assign_matrix ::
  "nat \<Rightarrow> nat \<Rightarrow> 'a list list \<Rightarrow> 'a list list \<Rightarrow> py_error + 'a list list" where
  "h5_assign_matrix r c old_row val =
     (if r * c = 0 then Inr old_row
      else if broadcastable_rev (rev (np_shape2 val)) (rev [r, c])
      then Inr (broadcast_matrix r c val)
      else Inl TypeError)"

definition h5_assign_array ::
  "nat list \<Rightarrow> 'p ndarray \<Rightarrow> 'p ndarray \<Rightarrow> py_error + 'p ndarray" where
  "h5_assign_array row_shape old_row val =
     (if prod_list row_shape = 0 then Inr old_row
      else if broadcastable_rev (rev (nd_shape val)) (rev row_shape)
      then Inr (val\<lparr>nd_shape := row_shape\<rparr>)
      else Inl TypeError)"

section \<open>Archive builder\<close>

text \<open>
  The body of the loop of \<^verbatim>\<open>calculate_feature_for_all_audio_files\<close>, in three steps: the
  features of both modalities, the weak target, the strong target. Each step takes the
  open archive and returns it as it is when the step ends, with the exception if one
  was raised; what was written before an exception stays written.
\<close>

definition write_features ::
  "config \<Rightarrow> numeric_lib \<Rightarrow> ('p, 's) collaborators \<Rightarrow> LogMelExtractor \<Rightarrow> string \<Rightarrow> string \<Rightarrow>
     nat \<Rightarrow> string \<Rightarrow> 'p archive \<Rightarrow> 'p archive \<times> py_error option" where
  "write_features cfg lib env feature_extractor audios_dir videos_dir n name hf =
     (let frames_num = cfg_frames_num cfg;
          mel_bins = cfg_mel_bins cfg;
          video_fps = cfg_video_fps cfg;
          video_feature_dim = cfg_video_feature_dim cfg;
          audio_path = path_join env audios_dir name;
          video_path = path_join env videos_dir (replace_wav_avi name)
      in case read_audio env audio_path (cfg_sample_rate cfg) of
           Inl e \<Rightarrow> (hf, Some e)
         | Inr audio0 \<Rightarrow>
        (let audio = pad_truncate_sequence audio0 (cfg_total_samples cfg)
         in case transform lib feature_extractor audio of
              Inl e \<Rightarrow> (hf, Some e)
            | Inr feature0 \<Rightarrow>
           (let feature1 = take frames_num feature0
            in case snd (video3d_frames (video_file env video_path)
                           video_feature_dim video_feature_dim video_fps True True) of
                 Inl e \<Rightarrow> (hf, Some e)
               | Inr video_feature1 \<Rightarrow>
              (let hf1 = hf\<lparr>feature :=
                            h5_resize (n + 1) (replicate frames_num (replicate mel_bins 0)) (feature hf)\<rparr>
               in case h5_assign_matrix frames_num mel_bins (feature hf1 ! n) feature1 of
                    Inl e \<Rightarrow> (hf1, Some e)
                  | Inr row \<Rightarrow>
                 (let hf2 = hf1\<lparr>feature := (feature hf1)[n := row]\<rparr>;
                      video_row = [video_feature_dim, video_feature_dim, video_fps, 3];
                      hf3 = hf2\<lparr>video_feature :=
                              h5_resize (n + 1) \<lparr>nd_shape = video_row, nd_sources = []\<rparr>
                                (video_feature hf2)\<rparr>
                  in case h5_assign_array video_row (video_feature hf3 ! n) video_feature1 of
                       Inl e \<Rightarrow> (hf3, Some e)
                     | Inr vrow \<Rightarrow>
                         (hf3\<lparr>video_feature := (video_feature hf3)[n := vrow]\<rparr>, None))))))"

definition write_weak_target ::
  "config \<Rightarrow> (string \<times> item_labels) list \<Rightarrow> nat \<Rightarrow> string \<Rightarrow> 'p archive \<Rightarrow>
     'p archive \<times> py_error option" where
  "write_weak_target cfg dict n name hf =
     (let classes_num = cfg_classes_num cfg
      in case map_of dict name of
           None \<Rightarrow> (hf, Some KeyError)
         | Some item \<Rightarrow>
             (case weak_target hf of
                None \<Rightarrow> (hf, Some KeyError)
              | Some rows \<Rightarrow>
                 (let rows1 = h5_resize (n + 1) (replicate classes_num False) rows;
                      hf1 = hf\<lparr>weak_target := Some rows1\<rparr>
                  in case labels_to_target (weak_labels item) classes_num (cfg_lb_to_idx cfg) of
                       Inl e \<Rightarrow> (hf1, Some e)
                     | Inr target \<Rightarrow> (hf1\<lparr>weak_target := Some (rows1[n := target])\<rparr>, None))))"

definition write_strong_target ::
  "config \<Rightarrow> (string \<times> item_labels) list \<Rightarrow> nat \<Rightarrow> string \<Rightarrow> 'p archive \<Rightarrow>
     'p archive \<times> py_error option" where
  "write_strong_target cfg dict n name hf =
     (let frames_num = cfg_frames_num cfg;
          classes_num = cfg_classes_num cfg
      in case map_of dict name of
           None \<Rightarrow> (hf, Some KeyError)
         | Some item \<Rightarrow>
             (case strong_target hf of
                None \<Rightarrow> (hf, Some KeyError)
              | Some rows \<Rightarrow>
                 (let rows1 = h5_resize (n + 1)
                                (replicate frames_num (replicate classes_num False)) rows;
                      hf1 = hf\<lparr>strong_target := Some rows1\<rparr>
                  in case events_to_target (strong_labels item) frames_num classes_num
                            (cfg_frames_per_second cfg) (cfg_lb_to_idx cfg) of
                       Inl e \<Rightarrow> (hf1, Some e)
                     | Inr target \<Rightarrow> (hf1\<lparr>strong_target := Some (rows1[n := target])\<rparr>, None))))"

definition write_item ::
  "config \<Rightarrow> numeric_lib \<Rightarrow> ('p, 's) collaborators \<Rightarrow> LogMelExtractor \<Rightarrow> metadata \<Rightarrow>
     string \<Rightarrow> string \<Rightarrow> nat \<Rightarrow> string \<Rightarrow> 'p archive \<Rightarrow> 'p archive \<times> py_error option" where
  "write_item cfg lib env feature_extractor md audios_dir videos_dir n name hf =
     (case write_features cfg lib env feature_extractor audios_dir videos_dir n name hf of
        (hf1, Some e) \<Rightarrow> (hf1, Some e)
      | (hf1, None) \<Rightarrow>
         (case (if has_weak_labels md then write_weak_target cfg (audio_dict md) n name hf1
                else (hf1, None)) of
            (hf2, Some e) \<Rightarrow> (hf2, Some e)
          | (hf2, None) \<Rightarrow>
              (if has_strong_labels md then write_strong_target cfg (audio_dict md) n name hf2
               else (hf2, None))))"

text \<open>\<^verbatim>\<open>for (n, audio_name) in enumerate(audio_names)\<close>: the first exception ends the run.\<close>

fun items_loop ::
  "config \<Rightarrow> numeric_lib \<Rightarrow> ('p, 's) collaborators \<Rightarrow> LogMelExtractor \<Rightarrow> metadata \<Rightarrow>
     string \<Rightarrow> string \<Rightarrow> (nat \<times> string) list \<Rightarrow> 'p archive \<Rightarrow> 'p archive \<times> py_error option" where
  "items_loop cfg lib env feature_extractor md audios_dir videos_dir [] hf = (hf, None)"
| "items_loop cfg lib env feature_extractor md audios_dir videos_dir ((n, name) # rest) hf =
     (case write_item cfg lib env feature_extractor md audios_dir videos_dir n name hf of
        (hf1, Some e) \<Rightarrow> (hf1, Some e)
      | (hf1, None) \<Rightarrow>
          items_loop cfg lib env feature_extractor md audios_dir videos_dir rest hf1)"

text \<open>
  \<^verbatim>\<open>calculate_feature_for_all_audio_files\<close>. The source fixes \<^verbatim>\<open>dataset_dir\<close>,
  \<^verbatim>\<open>workspace\<close>, \<^verbatim>\<open>data_type\<close> and \<^verbatim>\<open>mini_data\<close> in its first lines; here the last two are
  arguments, \<^verbatim>\<open>'train_synthetic'\<close> and \<^verbatim>\<open>False\<close> in the source. The result is the file
  system after the run, with the exception that ended it if there was one. The file is
  closed only by a run that ends without one.
\<close>

definition calculate_feature_for_all_audio_files ::
  "config \<Rightarrow> numeric_lib \<Rightarrow> ('p, 's) collaborators \<Rightarrow> string \<Rightarrow> bool \<Rightarrow> ('p, 's) world \<Rightarrow>
     ('p, 's) world \<times> py_error option" where
  "calculate_feature_for_all_audio_files cfg lib env data_type mini_data w =
     (let dataset_dir = ''files'' @ [CHR 0x5C];
          workspace = ''files'' @ [CHR 0x5C];
          prefix = (if mini_data then ''minidata_'' else '''');
          relative_name = get_relative_path_no_extension env data_type;
          audios_dir = path_join env (path_join env dataset_dir ''audio'') relative_name;
          videos_dir = path_join env (path_join env dataset_dir ''video'') relative_name;
          metadata_path = metadata_path_of env dataset_dir data_type relative_name;
          feature_path =
            archive_path_of env workspace ''features'' prefix (cfg_frames_per_second cfg)
              (cfg_mel_bins cfg) relative_name;
          w1 = create_folder (path_dirname env feature_path) w;
          feature_extractor =
            LogMelExtractor_init lib (cfg_sample_rate cfg) (cfg_window_size cfg) (cfg_hop_size cfg)
              (cfg_mel_bins cfg) (cfg_fmin cfg) (cfg_fmax cfg);
          md = read_metadata env metadata_path;
          audio_names0 = sort (map fst (audio_dict md));
          video_names = sort (map (\<lambda>key. replace_wav_avi key) (map fst (audio_dict md)));
          audio_names = (if mini_data then take 10 (random_shuffle env audio_names0) else audio_names0);
          hf = \<lparr>audio_name = map encode_S64 audio_names,
                feature = [],
                video_name = map encode_S64 video_names,
                video_feature = [],
                weak_target = (if has_weak_labels md then Some [] else None),
                strong_target = (if has_strong_labels md then Some [] else None)\<rparr>;
          (hf', err) = items_loop cfg lib env feature_extractor md audios_dir videos_dir
                         (enumerate 0 audio_names) hf
      in (w1\<lparr>h5_files := (h5_files w1)(feature_path \<mapsto> FeatureFile hf'),
              io_log := Open_write feature_path # io_log w1\<rparr>, err))"

section \<open>Scalar reducer\<close>

text \<open>
  \<^verbatim>\<open>calculate_scalar\<close>. The source fixes \<^verbatim>\<open>workspace\<close>, \<^verbatim>\<open>mini_data\<close> and \<^verbatim>\<open>data_type\<close> in its
  first lines and asserts at once that \<^verbatim>\<open>data_type\<close> is \<^verbatim>\<open>'train_synthetic'\<close>; here
  \<^verbatim>\<open>data_type\<close> and \<^verbatim>\<open>mini_data\<close> are arguments. Reading the feature archive raises when
  the file or one of its two feature datasets is not there.
\<close>

definition calculate_scalar ::
  "config \<Rightarrow> ('p, 's) collaborators \<Rightarrow> string \<Rightarrow> bool \<Rightarrow> ('p, 's) world \<Rightarrow>
     ('p, 's) world \<times> py_error option" where
  "calculate_scalar cfg env data_type mini_data w =
     (let workspace = ''files'' @ [CHR 0x5C]
      in if data_type \<noteq> ''train_synthetic'' then (w, Some AssertionError)
         else
        (let mel_bins = cfg_mel_bins cfg;
             frames_per_second = cfg_frames_per_second cfg;
             prefix = (if mini_data then ''minidata_'' else '''');
             relative_name = get_relative_path_no_extension env data_type;
             feature_path =
               archive_path_of env workspace ''features'' prefix frames_per_second mel_bins
                 relative_name;
             scalar_path =
               archive_path_of env workspace ''scalars'' prefix frames_per_second mel_bins
                 relative_name;
             w1 = create_folder (path_dirname env scalar_path) w;
             w2 = w1\<lparr>io_log := Open_read feature_path # io_log w1\<rparr>
         in case h5_files w2 feature_path of
              None \<Rightarrow> (w2, Some IOError)
            | Some (ScalarFile s) \<Rightarrow> (w2, Some KeyError)
            | Some (FeatureFile hf) \<Rightarrow>
               (let audio_features = feature hf;
                    video_features = video_feature hf
                in case scalar_of_features env audio_features of
                     Inl e \<Rightarrow> (w2, Some e)
                   | Inr (a_mean, a_std) \<Rightarrow>
                      (case scalar_of_video_features env video_features of
                         Inl e \<Rightarrow> (w2, Some e)
                       | Inr (v_mean, v_std) \<Rightarrow>
                           (w2\<lparr>h5_files := (h5_files w2)(scalar_path \<mapsto>
                                  ScalarFile \<lparr>audio_mean = a_mean, audio_std = a_std,
                                              video_mean = v_mean, video_std = v_std\<rparr>),
                               io_log := Open_write scalar_path # io_log w2\<rparr>, None)))))"

section \<open>Vocabulary of the properties\<close>

text \<open>
  The class column that a label selects under a vocabulary, and the rows that an event's
  slice selects in a matrix of \<open>n\<close> rows.
\<close>

definition label_class :: "(string \<rightharpoonup> int) \<Rightarrow> nat \<Rightarrow> label \<Rightarrow> nat \<Rightarrow> bool" where
  "label_class lb_to_idx n l c \<longleftrightarrow>
     (\<exists>s i. l = Label s \<and> lb_to_idx s = Some i \<and> np_index n i = Inr c)"

definition event_class :: "(string \<rightharpoonup> int) \<Rightarrow> nat \<Rightarrow> event_dict \<Rightarrow> nat \<Rightarrow> bool" where
  "event_class lb_to_idx n e c \<longleftrightarrow> label_class lb_to_idx n (event e) c"

definition event_covers :: "int \<Rightarrow> nat \<Rightarrow> event_dict \<Rightarrow> nat \<Rightarrow> bool" where
  "event_covers fps n e r \<longleftrightarrow>
     (case (onset_frame fps e, offset_frame fps e) of
        (Inr a, Inr b) \<Rightarrow> slice_bound n a \<le> r \<and> r < slice_bound n b
      | _ \<Rightarrow> False)"

text \<open>
  The shapes that the two \<^verbatim>\<open>librosa\<close> calls are documented to return: the transform of a
  signal of \<open>n_samples\<close> samples, centred, has \<open>1 + n_fft div 2\<close> rows (frequency bins)
  and \<open>1 + n_samples div hop\<close> columns (frames); the mel filter bank has \<open>mel_bins\<close> rows
  and \<open>1 + n_fft div 2\<close> columns.
\<close>

definition stft_shape_contract :: "numeric_lib \<Rightarrow> nat \<Rightarrow> nat \<Rightarrow> nat \<Rightarrow> bool" where
  "stft_shape_contract lib n_fft hop n_samples \<longleftrightarrow>
     (\<forall>y window. length y = n_samples \<longrightarrow>
        matrix_shape_is (1 + n_fft div 2) (1 + n_samples div hop) (librosa_stft lib y n_fft hop window))"

definition mel_shape_contract :: "numeric_lib \<Rightarrow> config \<Rightarrow> bool" where
  "mel_shape_contract lib cfg \<longleftrightarrow>
     matrix_shape_is (cfg_mel_bins cfg) (1 + cfg_window_size cfg div 2)
       (librosa_filters_mel lib (cfg_sample_rate cfg) (cfg_window_size cfg) (cfg_mel_bins cfg)
          (cfg_fmin cfg) (cfg_fmax cfg))"

text \<open>The extractor that the archive builder makes from the configuration.\<close>

definition config_extractor :: "numeric_lib \<Rightarrow> config \<Rightarrow> LogMelExtractor" where
  "config_extractor lib cfg =
     LogMelExtractor_init lib (cfg_sample_rate cfg) (cfg_window_size cfg) (cfg_hop_size cfg)
       (cfg_mel_bins cfg) (cfg_fmin cfg) (cfg_fmax cfg)"

text \<open>
  What the loop body computes for one item name before it writes: the audio feature
  row and the video feature row.
\<close>

definition item_feature ::
  "config \<Rightarrow> numeric_lib \<Rightarrow> ('p, 's) collaborators \<Rightarrow> LogMelExtractor \<Rightarrow> string \<Rightarrow> string \<Rightarrow>
     py_error + real list list" where
  "item_feature cfg lib env feature_extractor audios_dir name =
     (case read_audio env (path_join env audios_dir name) (cfg_sample_rate cfg) of
        Inl e \<Rightarrow> Inl e
      | Inr audio0 \<Rightarrow>
          (case transform lib feature_extractor
                  (pad_truncate_sequence audio0 (cfg_total_samples cfg)) of
             Inl e \<Rightarrow> Inl e
           | Inr feature0 \<Rightarrow> Inr (take (cfg_frames_num cfg) feature0)))"

definition item_video_feature ::
  "config \<Rightarrow> ('p, 's) collaborators \<Rightarrow> string \<Rightarrow> string \<Rightarrow> py_error + 'p ndarray" where
  "item_video_feature cfg env videos_dir name =
     snd (video3d_frames (video_file env (path_join env videos_dir (replace_wav_avi name)))
            (cfg_video_feature_dim cfg) (cfg_video_feature_dim cfg) (cfg_video_fps cfg) True True)"

text \<open>
  The rows that the loop body stores for an item: what the assignment makes of the two
  features when the row before it is the zero row of the resize.
\<close>

definition stored_feature :: "config \<Rightarrow> real list list \<Rightarrow> py_error + real list list" where
  "stored_feature cfg f =
     h5_assign_matrix (cfg_frames_num cfg) (cfg_mel_bins cfg)
       (replicate (cfg_frames_num cfg) (replicate (cfg_mel_bins cfg) 0)) f"

definition video_row_shape :: "config \<Rightarrow> nat list" where
  "video_row_shape cfg =
     [cfg_video_feature_dim cfg, cfg_video_feature_dim cfg, cfg_video_fps cfg, 3]"

definition stored_video_feature :: "config \<Rightarrow> 'p ndarray \<Rightarrow> py_error + 'p ndarray" where
  "stored_video_feature cfg v =
     h5_assign_array (video_row_shape cfg)
       \<lparr>nd_shape = video_row_shape cfg, nd_sources = []\<rparr> v"

definition item_feature_row ::
  "config \<Rightarrow> numeric_lib \<Rightarrow> ('p, 's) collaborators \<Rightarrow> LogMelExtractor \<Rightarrow> string \<Rightarrow> string \<Rightarrow>
     py_error + real list list" where
  "item_feature_row cfg lib env feature_extractor audios_dir name =
     (case item_feature cfg lib env feature_extractor audios_dir name of
        Inl e \<Rightarrow> Inl e
      | Inr f \<Rightarrow> stored_feature cfg f)"

definition item_video_row ::
  "config \<Rightarrow> ('p, 's) collaborators \<Rightarrow> string \<Rightarrow> string \<Rightarrow> py_error + 'p ndarray" where
  "item_video_row cfg env videos_dir name =
     (case item_video_feature cfg env videos_dir name of
        Inl e \<Rightarrow> Inl e
      | Inr v \<Rightarrow> stored_video_feature cfg v)"

text \<open>
  The mel power matrix of \<^verbatim>\<open>LogMelExtractor.transform\<close>, its \<^verbatim>\<open>mel_spectrogram\<close>, before the
  logarithm.
\<close>

definition mel_spectrogram ::
  "numeric_lib \<Rightarrow> LogMelExtractor \<Rightarrow> real list \<Rightarrow> py_error + real list list" where
  "mel_spectrogram lib self audio =
     np_dot (map (map (\<lambda>z. (cmod z)\<^sup>2))
               (transpose (librosa_stft lib audio (ex_window_size self) (ex_hop_size self)
                             (ex_window_func self))))
            (ex_melW self)"




text \<open>
  The metadata that a run of the archive builder reads for a data split, and the two
  directories it takes the media from.
\<close>

definition run_metadata :: "('p, 's) collaborators \<Rightarrow> string \<Rightarrow> metadata" where
  "run_metadata env data_type =
     read_metadata env
       (metadata_path_of env (''files'' @ [CHR 0x5C]) data_type
          (get_relative_path_no_extension env data_type))"

definition run_media_dir :: "('p, 's) collaborators \<Rightarrow> string \<Rightarrow> string \<Rightarrow> string" where
  "run_media_dir env kind data_type =
     path_join env (path_join env (''files'' @ [CHR 0x5C]) kind)
       (get_relative_path_no_extension env data_type)"

text \<open>The number of rows of each dataset of an archive being \<open>n\<close>.\<close>

definition rows_written :: "metadata \<Rightarrow> nat \<Rightarrow> 'p archive \<Rightarrow> bool" where
  "rows_written md n hf \<longleftrightarrow>
     length (feature hf) = n \<and> length (video_feature hf) = n \<and>
     map_option length (weak_target hf) = (if has_weak_labels md then Some n else None) \<and>
     map_option length (strong_target hf) = (if has_strong_labels md then Some n else None)"

text \<open>The archive as the builder creates it, before the loop.\<close>

definition initial_archive :: "metadata \<Rightarrow> 'p archive" where
  "initial_archive md =
     \<lparr>audio_name = map encode_S64 (sort (map fst (audio_dict md))),
      feature = [],
      video_name = map encode_S64 (sort (map replace_wav_avi (map fst (audio_dict md)))),
      video_feature = [],
      weak_target = (if has_weak_labels md then Some [] else None),
      strong_target = (if has_strong_labels md then Some [] else None)\<rparr>"

text \<open>The archive that the latest operation of a run opened for writing.\<close>

definition written_archive :: "('p, 's) world \<Rightarrow> 'p archive option" where
  "written_archive w =
     (case io_log w of
        Open_write path # _ \<Rightarrow>
          (case h5_files w path of Some (FeatureFile a) \<Rightarrow> Some a | _ \<Rightarrow> None)
      | _ \<Rightarrow> None)"

section \<open>Example inputs\<close>

text \<open>
  A numeric library whose arrays have the documented shapes and hold zeros, and the
  same with the logarithm of the spec; a configuration with a ten-second clip at
  32 kHz, a small one, and the small one asking for more frames than its clip has; a
  corpus of two items whose video files are named by their paths.
\<close>

definition example_lib :: numeric_lib where
  "example_lib =
     \<lparr>np_hanning = (\<lambda>n. replicate n 1),
      librosa_filters_mel =
        (\<lambda>sr n_fft n_mels fmin fmax. replicate n_mels (replicate (1 + n_fft div 2) 1)),
      librosa_stft =
        (\<lambda>y n_fft hop window. replicate (1 + n_fft div 2) (replicate (1 + length y div hop) 0)),
      librosa_power_to_db = (\<lambda>x. x),
      astype_float32 = (\<lambda>x. x)\<rparr>"

definition example_config :: config where
  "example_config =
     \<lparr>cfg_sample_rate = 32000, cfg_window_size = 1024, cfg_hop_size = 500, cfg_mel_bins = 64,
      cfg_fmin = 50, cfg_fmax = 14000, cfg_frames_per_second = 64, cfg_frames_num = 640,
      cfg_total_samples = 320000, cfg_classes_num = 10, cfg_lb_to_idx = [''Dog'' \<mapsto> 0],
      cfg_video_fps = 25, cfg_video_feature_dim = 32\<rparr>"

definition small_config :: config where
  "small_config =
     \<lparr>cfg_sample_rate = 1, cfg_window_size = 2, cfg_hop_size = 1, cfg_mel_bins = 1,
      cfg_fmin = 0, cfg_fmax = 1, cfg_frames_per_second = 1, cfg_frames_num = 2,
      cfg_total_samples = 1, cfg_classes_num = 1, cfg_lb_to_idx = [''Dog'' \<mapsto> 0],
      cfg_video_fps = 1, cfg_video_feature_dim = 1\<rparr>"

definition two_items :: "(string, unit) collaborators" where
  "two_items =
     \<lparr>path_join = (\<lambda>a b. a @ ''/'' @ b),
      path_dirname = (\<lambda>p. ''dir''),
      get_relative_path_no_extension = (\<lambda>d. d),
      read_metadata =
        (\<lambda>p. \<lparr>audio_dict = [(''a.wav'', \<lparr>weak_labels = [], strong_labels = []\<rparr>),
                             (''a.b.wav'', \<lparr>weak_labels = [], strong_labels = []\<rparr>)],
               has_weak_labels = False, has_strong_labels = False\<rparr>),
      read_audio = (\<lambda>p fs. Inr [0]),
      video_file = (\<lambda>p. [Some p]),
      random_shuffle = (\<lambda>xs. xs),
      scalar_of_features = (\<lambda>x. Inr ((), ())),
      scalar_of_video_features = (\<lambda>x. Inr ((), ()))\<rparr>"


definition short_config :: config where
  "short_config = small_config\<lparr>cfg_frames_num := 3\<rparr>"

definition empty_world :: "(string, unit) world" where
  "empty_world = \<lparr>folders = {}, h5_files = Map.empty, io_log = []\<rparr>"

section \<open>Properties of the label rasterizer\<close>

subsection \<open>Indices and slices\<close>

lemma length_set_rows: "length (set_rows lo hi c t) = length t"
  by (simp add: set_rows_def)

lemma nth_set_rows:
  "r < length t \<Longrightarrow> set_rows lo hi c t ! r = (if lo \<le> r \<and> r < hi then (t ! r)[c := True] else t ! r)"
  by (simp add: set_rows_def nth_enumerate_eq)

lemma np_index_lt: "np_index n i = Inr c \<Longrightarrow> c < n"
  by (auto simp: np_index_def Let_def split: if_splits)

lemma np_index_nonneg: "0 \<le> i \<Longrightarrow> i < int n \<Longrightarrow> np_index n i = Inr (nat i)"
  by (simp add: np_index_def)

lemma slice_bound_nonneg: "0 \<le> i \<Longrightarrow> slice_bound n i = nat (min i (int n))"
  by (simp add: slice_bound_def)

lemma slice_bound_le: "slice_bound n i \<le> n"
  by (auto simp: slice_bound_def)

subsection \<open>The two loops\<close>

text \<open>
  Both loops are characterised for an arbitrary starting target, so that the induction
  goes through: a bit of the result is set when it was set before or a label of the
  list selects it.
\<close>

lemma labels_loop_char:
  assumes "\<forall>l\<in>set ls. l \<noteq> NaN \<longrightarrow> (\<exists>c. label_class m (length t) l c)"
  shows "\<exists>t'. labels_loop m ls t = Inr t' \<and> length t' = length t \<and>
           (\<forall>c<length t. t' ! c = (t ! c \<or> (\<exists>l\<in>set ls. label_class m (length t) l c)))"
  using assms
proof (induction ls arbitrary: t)
  case Nil
  then show ?case by simp
next
  case (Cons l ls)
  show ?case
  proof (cases l)
    case NaN
    with Cons.IH[of t] Cons.prems show ?thesis
      by (auto simp: label_class_def)
  next
    case (Label s)
    with Cons.prems obtain i j where ij: "m s = Some i" "np_index (length t) i = Inr j"
      by (auto simp: label_class_def)
    have j: "j < length t" using ij(2) by (rule np_index_lt)
    have "\<forall>l\<in>set ls. l \<noteq> NaN \<longrightarrow> (\<exists>c. label_class m (length (t[j := True])) l c)"
      using Cons.prems by simp
    from Cons.IH[OF this] obtain t' where t':
      "labels_loop m ls (t[j := True]) = Inr t'" "length t' = length t"
      "\<forall>c<length t. t' ! c = ((t[j := True]) ! c \<or> (\<exists>l\<in>set ls. label_class m (length t) l c))"
      by auto
    have "labels_loop m (l # ls) t = Inr t'"
      using Label ij t'(1) by simp
    moreover have "\<forall>c<length t. t' ! c = (t ! c \<or> (\<exists>l'\<in>set (l # ls). label_class m (length t) l' c))"
    proof (intro allI impI)
      fix c assume c: "c < length t"
      have "label_class m (length t) l c \<longleftrightarrow> c = j"
        using Label ij by (auto simp: label_class_def)
      then show "t' ! c = (t ! c \<or> (\<exists>l'\<in>set (l # ls). label_class m (length t) l' c))"
        using t'(3) c j by (auto simp: nth_list_update)
    qed
    ultimately show ?thesis using t'(2) by blast
  qed
qed

lemma event_covers_iff:
  "event_covers fps n e r \<longleftrightarrow>
     (\<exists>a b. onset_frame fps e = Inr a \<and> offset_frame fps e = Inr b \<and>
            slice_bound n a \<le> r \<and> r < slice_bound n b)"
  by (auto simp: event_covers_def split: sum.splits)

lemma events_loop_char:
  assumes "\<forall>e\<in>set es. event e \<noteq> NaN \<longrightarrow>
             (\<exists>c. event_class m cn e c) \<and>
             (\<exists>a b. onset_frame fps e = Inr a \<and> offset_frame fps e = Inr b)"
    and "\<forall>row\<in>set t. length row = cn"
  shows "\<exists>t'. events_loop m fps cn es t = Inr t' \<and> length t' = length t \<and>
           (\<forall>row\<in>set t'. length row = cn) \<and>
           (\<forall>r<length t. \<forall>c<cn. t' ! r ! c =
              (t ! r ! c \<or> (\<exists>e\<in>set es. event_class m cn e c \<and> event_covers fps (length t) e r)))"
  using assms
proof (induction es arbitrary: t)
  case Nil
  then show ?case by simp
next
  case (Cons e es)
  have rest: "\<forall>e\<in>set es. event e \<noteq> NaN \<longrightarrow>
             (\<exists>c. event_class m cn e c) \<and>
             (\<exists>a b. onset_frame fps e = Inr a \<and> offset_frame fps e = Inr b)"
    using Cons.prems(1) by simp
  show ?case
  proof (cases "event e")
    case NaN
    have "\<not> event_class m cn e c" for c
      using NaN by (simp add: event_class_def label_class_def)
    with Cons.IH[OF rest Cons.prems(2)] NaN show ?thesis
      by auto
  next
    case (Label s)
    with Cons.prems(1) obtain i j where ij: "m s = Some i" "np_index cn i = Inr j"
      by (auto simp: event_class_def label_class_def)
    from Label Cons.prems(1) obtain a b where ab:
      "onset_frame fps e = Inr a" "offset_frame fps e = Inr b"
      by auto
    have j: "j < cn" using ij(2) by (rule np_index_lt)
    define lo where "lo = slice_bound (length t) a"
    define hi where "hi = slice_bound (length t) b"
    define u where "u = set_rows lo hi j t"
    have lu: "length u = length t" by (simp add: u_def length_set_rows)
    have nu: "u ! r = (if lo \<le> r \<and> r < hi then (t ! r)[j := True] else t ! r)" if "r < length t" for r
      using that by (simp add: u_def nth_set_rows)
    have ru: "\<forall>row\<in>set u. length row = cn"
    proof
      fix row assume "row \<in> set u"
      then obtain r where r: "r < length u" "row = u ! r" by (auto simp: in_set_conv_nth)
      then have "t ! r \<in> set t" using lu by simp
      then have "length (t ! r) = cn" using Cons.prems(2) by blast
      then show "length row = cn" using r lu nu[of r] by simp
    qed
    from Cons.IH[OF rest ru] obtain t' where t':
      "events_loop m fps cn es u = Inr t'" "length t' = length t"
      "\<forall>row\<in>set t'. length row = cn"
      "\<forall>r<length t. \<forall>c<cn. t' ! r ! c =
          (u ! r ! c \<or> (\<exists>e\<in>set es. event_class m cn e c \<and> event_covers fps (length t) e r))"
      using lu by auto
    have run: "events_loop m fps cn (e # es) t = Inr t'"
      using Label ij ab t'(1) by (simp add: u_def lo_def hi_def)
    have cls: "event_class m cn e c \<longleftrightarrow> c = j" for c
      using Label ij by (auto simp: event_class_def label_class_def)
    have cov: "event_covers fps (length t) e r \<longleftrightarrow> lo \<le> r \<and> r < hi" for r
      using ab by (simp add: event_covers_def lo_def hi_def)
    have "\<forall>r<length t. \<forall>c<cn. t' ! r ! c =
          (t ! r ! c \<or> (\<exists>e'\<in>set (e # es). event_class m cn e' c \<and> event_covers fps (length t) e' r))"
    proof (intro allI impI)
      fix r c assume r: "r < length t" and c: "c < cn"
      have "t ! r \<in> set t" using r by simp
      then have len: "length (t ! r) = cn" using Cons.prems(2) by blast
      have "u ! r ! c = (t ! r ! c \<or> (c = j \<and> lo \<le> r \<and> r < hi))"
        using nu[OF r] len c j by (auto simp: nth_list_update)
      then show "t' ! r ! c =
          (t ! r ! c \<or> (\<exists>e'\<in>set (e # es). event_class m cn e' c \<and> event_covers fps (length t) e' r))"
        using t'(4) r c cls cov by auto
    qed
    with run t'(2,3) show ?thesis by blast
  qed
qed

subsection \<open>Weak targets\<close>

text \<open>
  Claim C4, in the form that holds. For every label list whose labels other than the
  NaN marker are all keys of \<open>lb_to_idx\<close> with an index in \<open>[0, classes_num)\<close>,
  \<open>labels_to_target\<close> raises no error and returns a vector of length \<open>classes_num\<close> in
  which exactly the bits at the mapped indices of those labels are set; labels marked
  NaN are skipped. A label that is not a key is not skipped: see the counterexample
  and \<open>labels_loop_unknown_label\<close> below.
\<close>

theorem labels_to_target_known_labels:
  assumes "\<forall>s. Label s \<in> set labels \<longrightarrow>
             (\<exists>i. lb_to_idx s = Some i \<and> 0 \<le> i \<and> i < int classes_num)"
  shows "\<exists>target. labels_to_target labels classes_num lb_to_idx = Inr target \<and>
           length target = classes_num \<and>
           (\<forall>c<classes_num. target ! c = (\<exists>s. Label s \<in> set labels \<and> lb_to_idx s = Some (int c)))"
proof -
  let ?z = "replicate classes_num False"
  have cls: "label_class lb_to_idx classes_num l c \<longleftrightarrow> (\<exists>s. l = Label s \<and> lb_to_idx s = Some (int c))"
    if "l \<in> set labels" "c < classes_num" for l c
  proof (cases l)
    case NaN
    then show ?thesis by (simp add: label_class_def)
  next
    case (Label s)
    with that(1) assms obtain i where i: "lb_to_idx s = Some i" "0 \<le> i" "i < int classes_num"
      by blast
    then have "np_index classes_num i = Inr (nat i)" by (simp add: np_index_nonneg)
    with i Label show ?thesis by (auto simp: label_class_def)
  qed
  have "\<forall>l\<in>set labels. l \<noteq> NaN \<longrightarrow> (\<exists>c. label_class lb_to_idx (length ?z) l c)"
  proof (intro ballI impI)
    fix l assume l: "l \<in> set labels" "l \<noteq> NaN"
    obtain s where s: "l = Label s" using l(2) by (metis label.exhaust)
    with l assms obtain i where i: "lb_to_idx s = Some i" "0 \<le> i" "i < int classes_num"
      by blast
    then have "np_index classes_num i = Inr (nat i)" by (simp add: np_index_nonneg)
    with s i show "\<exists>c. label_class lb_to_idx (length ?z) l c"
      by (auto simp: label_class_def)
  qed
  from labels_loop_char[OF this] obtain t where t:
    "labels_loop lb_to_idx labels ?z = Inr t" "length t = classes_num"
    "\<forall>c<classes_num. t ! c = (\<exists>l\<in>set labels. label_class lb_to_idx classes_num l c)"
    by auto
  have "\<forall>c<classes_num. t ! c = (\<exists>s. Label s \<in> set labels \<and> lb_to_idx s = Some (int c))"
  proof (intro allI impI)
    fix c assume c: "c < classes_num"
    have "(\<exists>l\<in>set labels. label_class lb_to_idx classes_num l c) \<longleftrightarrow>
          (\<exists>s. Label s \<in> set labels \<and> lb_to_idx s = Some (int c))"
      using cls[OF _ c] by blast
    with t(3) c show "t ! c = (\<exists>s. Label s \<in> set labels \<and> lb_to_idx s = Some (int c))"
      by simp
  qed
  with t(1,2) show ?thesis by (simp add: labels_to_target_def)
qed

text \<open>The theorem at a label list with a NaN marker in it.\<close>

theorem labels_to_target_known_labels_witness:
  "labels_to_target [Label ''Dog'', NaN, Label ''Blender''] 5 [''Dog'' \<mapsto> 0, ''Blender'' \<mapsto> 1]
     = Inr [True, True, False, False, False]"
proof -
  have h: "\<forall>s. Label s \<in> set [Label ''Dog'', NaN, Label ''Blender''] \<longrightarrow>
             (\<exists>i. [''Dog'' \<mapsto> 0, ''Blender'' \<mapsto> 1] s = Some i \<and> 0 \<le> i \<and> i < int 5)"
    by auto
  have "labels_to_target [Label ''Dog'', NaN, Label ''Blender''] 5 [''Dog'' \<mapsto> 0, ''Blender'' \<mapsto> 1]
     = Inr [True, True, False, False, False]"
    by code_simp
  with labels_to_target_known_labels[OF h] show ?thesis
    by simp
qed

text \<open>
  The claim as first stated has \<open>labels_to_target\<close> skip a label that is absent from the
  map. It does not: \<^verbatim>\<open>lb_to_idx[label]\<close> raises KeyError on \<^verbatim>\<open>'Cat'\<close>.
\<close>

theorem labels_to_target_unknown_label_counterexample:
  "labels_to_target [Label ''Dog'', Label ''Cat''] 5 [''Dog'' \<mapsto> 0, ''Blender'' \<mapsto> 1]
     = Inl KeyError"
  by (simp add: labels_to_target_def np_index_def)

text \<open>In general, a label that is not a key makes the loop end in an exception.\<close>

lemma labels_loop_unknown_label:
  assumes "Label s \<in> set ls" and "lb_to_idx s = None"
  shows "\<exists>e. labels_loop lb_to_idx ls t = Inl e"
  using assms
proof (induction ls arbitrary: t)
  case Nil
  then show ?case by simp
next
  case (Cons l ls)
  show ?case
  proof (cases "l = Label s")
    case True
    with Cons.prems show ?thesis by simp
  next
    case False
    with Cons.prems have "Label s \<in> set ls" by simp
    from Cons.IH[OF this Cons.prems(2)] show ?thesis
      by (auto split: label.splits option.splits sum.splits)
  qed
qed


subsection \<open>Strong targets\<close>

text \<open>
  The frame numbers follow the float product. The double nearest to \<open>0.1\<close> lies above
  \<open>1/10\<close>; its product with \<open>5\<close> rounds to the double \<open>0.5\<close>, and \<^verbatim>\<open>round(0.5)\<close> is \<open>0\<close>,
  where the exact product would round to \<open>1\<close>. The double nearest to \<open>0.3\<close> lies below
  \<open>3/10\<close>; its product with \<open>5\<close> rounds to \<open>1.5\<close>, and \<^verbatim>\<open>round(1.5)\<close> is \<open>2\<close>.
\<close>

lemma float_product_is_rounded:
  "onset_frame 5 \<lparr>event = NaN, onset = Finite_float (3602879701896397 / 36028797018963968),
                   offset = Finite_float (5404319552844595 / 18014398509481984)\<rparr> = Inr 0 \<and>
   round_half_even (3602879701896397 / 36028797018963968 * 5) = 1 \<and>
   offset_frame 5 \<lparr>event = NaN, onset = Finite_float (3602879701896397 / 36028797018963968),
                    offset = Finite_float (5404319552844595 / 18014398509481984)\<rparr> = Inr 3 \<and>
   round_half_even (5404319552844595 / 18014398509481984 * 5) + 1 = 2"
  by code_simp

lemma events_to_target_char:
  assumes vocab: "\<forall>e\<in>set events. \<forall>s. event e = Label s \<longrightarrow>
             (\<exists>i. lb_to_idx s = Some i \<and> 0 \<le> i \<and> i < int classes_num)"
    and frames: "\<forall>e\<in>set events. event e \<noteq> NaN \<longrightarrow>
             (\<exists>a b. onset_frame fps e = Inr a \<and> offset_frame fps e = Inr b)"
  shows "\<exists>target. events_to_target events frames_num classes_num fps lb_to_idx = Inr target \<and>
           length target = frames_num \<and>
           (\<forall>row\<in>set target. length row = classes_num) \<and>
           (\<forall>r<frames_num. \<forall>c<classes_num. target ! r ! c =
              (\<exists>e\<in>set events. \<exists>s. event e = Label s \<and> lb_to_idx s = Some (int c) \<and>
                 event_covers fps frames_num e r))"
proof -
  let ?z = "replicate frames_num (replicate classes_num False)"
  have cls: "event_class lb_to_idx classes_num e c \<longleftrightarrow>
               (\<exists>s. event e = Label s \<and> lb_to_idx s = Some (int c))"
    if "e \<in> set events" "c < classes_num" for e c
  proof (cases "event e")
    case NaN
    then show ?thesis by (simp add: event_class_def label_class_def)
  next
    case (Label s)
    with that(1) vocab obtain i where i: "lb_to_idx s = Some i" "0 \<le> i" "i < int classes_num"
      by blast
    then have "np_index classes_num i = Inr (nat i)" by (simp add: np_index_nonneg)
    with i Label show ?thesis by (auto simp: event_class_def label_class_def)
  qed
  have a1: "\<forall>e\<in>set events. event e \<noteq> NaN \<longrightarrow>
              (\<exists>c. event_class lb_to_idx classes_num e c) \<and>
              (\<exists>a b. onset_frame fps e = Inr a \<and> offset_frame fps e = Inr b)"
  proof (intro ballI impI conjI)
    fix e assume e: "e \<in> set events" "event e \<noteq> NaN"
    obtain s where s: "event e = Label s" using e(2) by (metis label.exhaust)
    with e vocab obtain i where i: "lb_to_idx s = Some i" "0 \<le> i" "i < int classes_num"
      by blast
    then have "np_index classes_num i = Inr (nat i)" by (simp add: np_index_nonneg)
    with s i show "\<exists>c. event_class lb_to_idx classes_num e c"
      by (auto simp: event_class_def label_class_def)
    from e frames show "\<exists>a b. onset_frame fps e = Inr a \<and> offset_frame fps e = Inr b"
      by blast
  qed
  have a2: "\<forall>row\<in>set ?z. length row = classes_num" by simp
  from events_loop_char[OF a1 a2] obtain t where t:
    "events_loop lb_to_idx fps classes_num events ?z = Inr t" "length t = frames_num"
    "\<forall>row\<in>set t. length row = classes_num"
    "\<forall>r<frames_num. \<forall>c<classes_num. t ! r ! c =
       (\<exists>e\<in>set events. event_class lb_to_idx classes_num e c \<and> event_covers fps frames_num e r)"
    by auto
  have "\<forall>r<frames_num. \<forall>c<classes_num. t ! r ! c =
          (\<exists>e\<in>set events. \<exists>s. event e = Label s \<and> lb_to_idx s = Some (int c) \<and>
             event_covers fps frames_num e r)"
  proof (intro allI impI)
    fix r c assume r: "r < frames_num" and c: "c < classes_num"
    have "(\<exists>e\<in>set events. event_class lb_to_idx classes_num e c \<and> event_covers fps frames_num e r) \<longleftrightarrow>
          (\<exists>e\<in>set events. \<exists>s. event e = Label s \<and> lb_to_idx s = Some (int c) \<and>
             event_covers fps frames_num e r)"
      using cls[OF _ c] by blast
    with t(4) r c show "t ! r ! c =
          (\<exists>e\<in>set events. \<exists>s. event e = Label s \<and> lb_to_idx s = Some (int c) \<and>
             event_covers fps frames_num e r)"
      by simp
  qed
  with t(1,2,3) show ?thesis by (simp add: events_to_target_def)
qed

lemma matrix_eqI:
  assumes "length a = n" "length b = n"
    and "\<forall>row\<in>set a. length row = m" "\<forall>row\<in>set b. length row = m"
    and "\<forall>r<n. \<forall>c<m. a ! r ! c = b ! r ! c"
  shows "a = (b :: 'a list list)"
proof (rule nth_equalityI)
  show "length a = length b" using assms(1,2) by simp
next
  fix r assume r: "r < length a"
  then have "a ! r \<in> set a" "b ! r \<in> set b" using assms(1,2) by simp_all
  then have la: "length (a ! r) = m" and lb: "length (b ! r) = m" using assms(3,4) by blast+
  show "a ! r = b ! r"
  proof (rule nth_equalityI)
    show "length (a ! r) = length (b ! r)" using la lb by simp
  next
    fix c assume "c < length (a ! r)"
    then show "a ! r ! c = b ! r ! c" using assms(5) r assms(1) la by simp
  qed
qed

lemma events_to_target_set_eq:
  assumes vocab: "\<forall>e\<in>set events. \<forall>s. event e = Label s \<longrightarrow>
             (\<exists>i. lb_to_idx s = Some i \<and> 0 \<le> i \<and> i < int classes_num)"
    and frames: "\<forall>e\<in>set events. event e \<noteq> NaN \<longrightarrow>
             (\<exists>a b. onset_frame fps e = Inr a \<and> offset_frame fps e = Inr b)"
    and "set events' = set events"
  shows "events_to_target events' frames_num classes_num fps lb_to_idx =
         events_to_target events frames_num classes_num fps lb_to_idx"
proof -
  have vocab': "\<forall>e\<in>set events'. \<forall>s. event e = Label s \<longrightarrow>
             (\<exists>i. lb_to_idx s = Some i \<and> 0 \<le> i \<and> i < int classes_num)"
    using vocab assms(3) by simp
  have frames': "\<forall>e\<in>set events'. event e \<noteq> NaN \<longrightarrow>
             (\<exists>a b. onset_frame fps e = Inr a \<and> offset_frame fps e = Inr b)"
    using frames assms(3) by simp
  from events_to_target_char[OF vocab frames, of frames_num] obtain t where t:
    "events_to_target events frames_num classes_num fps lb_to_idx = Inr t"
    "length t = frames_num" "\<forall>row\<in>set t. length row = classes_num"
    "\<forall>r<frames_num. \<forall>c<classes_num. t ! r ! c =
              (\<exists>e\<in>set events. \<exists>s. event e = Label s \<and> lb_to_idx s = Some (int c) \<and>
                 event_covers fps frames_num e r)"
    by blast
  from events_to_target_char[OF vocab' frames', of frames_num] obtain t' where t':
    "events_to_target events' frames_num classes_num fps lb_to_idx = Inr t'"
    "length t' = frames_num" "\<forall>row\<in>set t'. length row = classes_num"
    "\<forall>r<frames_num. \<forall>c<classes_num. t' ! r ! c =
              (\<exists>e\<in>set events'. \<exists>s. event e = Label s \<and> lb_to_idx s = Some (int c) \<and>
                 event_covers fps frames_num e r)"
    by blast
  have "\<forall>r<frames_num. \<forall>c<classes_num. t' ! r ! c = t ! r ! c"
    using t(4) t'(4) assms(3) by simp
  from matrix_eqI[OF t'(2) t(2) t'(3) t(3) this] show ?thesis
    using t(1) t'(1) by simp
qed

lemma event_covers_nonneg:
  assumes "onset_frame fps e = Inr a" and "offset_frame fps e = Inr b"
    and "0 \<le> a" and "0 \<le> b" and "r < n"
  shows "event_covers fps n e r \<longleftrightarrow> a \<le> int r \<and> int r < b"
  using assms by (auto simp: event_covers_def slice_bound_def)

text \<open>
  Claim C2, in the form that holds. Take an event list in which every event with a
  name other than the NaN marker has a name that is a key of \<open>lb_to_idx\<close> with an index
  in \<open>[0, classes_num)\<close>, and has both frame numbers defined and not negative:
  \<open>onset_frame = int(round(onset * frames_per_second))\<close> and
  \<open>offset_frame = int(round(offset * frames_per_second)) + 1\<close>, the product being the
  float product (a NaN or infinite time or product has no frame number). Then
  \<open>events_to_target\<close> returns a matrix of \<open>frames_num\<close> rows and \<open>classes_num\<close> columns in
  which the cell at row \<open>r\<close> and column \<open>c\<close> is set exactly when some such event of class
  \<open>c\<close> has \<open>onset_frame \<le> r < offset_frame\<close>; and the result is unchanged by repeating
  an event of the list.
\<close>

theorem events_to_target_exact_cells:
  assumes vocab: "\<forall>e\<in>set events. \<forall>s. event e = Label s \<longrightarrow>
             (\<exists>i. lb_to_idx s = Some i \<and> 0 \<le> i \<and> i < int classes_num)"
    and frames: "\<forall>e\<in>set events. event e \<noteq> NaN \<longrightarrow>
             (\<exists>a b. onset_frame fps e = Inr a \<and> offset_frame fps e = Inr b \<and> 0 \<le> a \<and> 0 \<le> b)"
  shows "\<exists>target. events_to_target events frames_num classes_num fps lb_to_idx = Inr target \<and>
           length target = frames_num \<and>
           (\<forall>r<frames_num. length (target ! r) = classes_num \<and>
              (\<forall>c<classes_num. target ! r ! c =
                 (\<exists>e\<in>set events. \<exists>s a b. event e = Label s \<and> lb_to_idx s = Some (int c) \<and>
                    onset_frame fps e = Inr a \<and> offset_frame fps e = Inr b \<and>
                    a \<le> int r \<and> int r < b))) \<and>
           (\<forall>e\<in>set events.
              events_to_target (events @ [e]) frames_num classes_num fps lb_to_idx = Inr target)"
proof -
  have defined: "\<forall>e\<in>set events. event e \<noteq> NaN \<longrightarrow>
             (\<exists>a b. onset_frame fps e = Inr a \<and> offset_frame fps e = Inr b)"
    using frames by blast
  from events_to_target_char[OF vocab defined, of frames_num] obtain t where t:
    "events_to_target events frames_num classes_num fps lb_to_idx = Inr t"
    "length t = frames_num" "\<forall>row\<in>set t. length row = classes_num"
    "\<forall>r<frames_num. \<forall>c<classes_num. t ! r ! c =
              (\<exists>e\<in>set events. \<exists>s. event e = Label s \<and> lb_to_idx s = Some (int c) \<and>
                 event_covers fps frames_num e r)"
    by blast
  have cells: "\<forall>r<frames_num. length (t ! r) = classes_num \<and>
              (\<forall>c<classes_num. t ! r ! c =
                 (\<exists>e\<in>set events. \<exists>s a b. event e = Label s \<and> lb_to_idx s = Some (int c) \<and>
                    onset_frame fps e = Inr a \<and> offset_frame fps e = Inr b \<and>
                    a \<le> int r \<and> int r < b))"
  proof (intro allI impI conjI)
    fix r assume r: "r < frames_num"
    then have "t ! r \<in> set t" using t(2) by simp
    then show "length (t ! r) = classes_num" using t(3) by blast
  next
    fix r c assume r: "r < frames_num" and c: "c < classes_num"
    have "(\<exists>s. event e = Label s \<and> lb_to_idx s = Some (int c) \<and> event_covers fps frames_num e r) \<longleftrightarrow>
          (\<exists>s a b. event e = Label s \<and> lb_to_idx s = Some (int c) \<and>
                onset_frame fps e = Inr a \<and> offset_frame fps e = Inr b \<and>
                a \<le> int r \<and> int r < b)"
      if "e \<in> set events" for e
    proof (cases "event e")
      case NaN
      then show ?thesis by simp
    next
      case (Label s)
      with that frames obtain a b where ab:
        "onset_frame fps e = Inr a" "offset_frame fps e = Inr b" "0 \<le> a" "0 \<le> b"
        by auto
      from event_covers_nonneg[OF ab r] ab(1,2) show ?thesis by simp
    qed
    then have "(\<exists>e\<in>set events. \<exists>s. event e = Label s \<and> lb_to_idx s = Some (int c) \<and>
                 event_covers fps frames_num e r) \<longleftrightarrow>
          (\<exists>e\<in>set events. \<exists>s a b. event e = Label s \<and> lb_to_idx s = Some (int c) \<and>
                    onset_frame fps e = Inr a \<and> offset_frame fps e = Inr b \<and>
                    a \<le> int r \<and> int r < b)"
      by blast
    with t(4) r c show "t ! r ! c =
                 (\<exists>e\<in>set events. \<exists>s a b. event e = Label s \<and> lb_to_idx s = Some (int c) \<and>
                    onset_frame fps e = Inr a \<and> offset_frame fps e = Inr b \<and>
                    a \<le> int r \<and> int r < b)"
      by simp
  qed
  have "\<forall>e\<in>set events.
          events_to_target (events @ [e]) frames_num classes_num fps lb_to_idx = Inr t"
  proof
    fix e assume "e \<in> set events"
    then have "set (events @ [e]) = set events" by auto
    from events_to_target_set_eq[OF vocab defined this] t(1)
    show "events_to_target (events @ [e]) frames_num classes_num fps lb_to_idx = Inr t"
      by simp
  qed
  with t(1,2) cells show ?thesis by blast
qed

text \<open>
  The theorem at five frames per second and a list of four events: two overlapping
  events of one class, with the times \<open>0.1\<close> to \<open>0.3\<close> and \<open>0.4\<close> to \<open>0.6\<close> as doubles
  (frames \<open>0\<close> to \<open>3\<close> and \<open>2\<close> to \<open>4\<close>, by the float products), an event without a name
  whose times are NaN, and an event of a second class; the first event is repeated at
  the end.
\<close>

theorem events_to_target_exact_cells_witness:
  "events_to_target
     [\<lparr>event = Label ''Dog'', onset = Finite_float (3602879701896397 / 36028797018963968),
        offset = Finite_float (5404319552844595 / 18014398509481984)\<rparr>,
      \<lparr>event = Label ''Dog'', onset = Finite_float (3602879701896397 / 9007199254740992),
        offset = Finite_float (5404319552844595 / 9007199254740992)\<rparr>,
      \<lparr>event = NaN, onset = Not_a_number, offset = Not_a_number\<rparr>,
      \<lparr>event = Label ''Blender'', onset = Finite_float 1, offset = Finite_float 1\<rparr>]
     6 2 5 [''Dog'' \<mapsto> 0, ''Blender'' \<mapsto> 1]
   = Inr [[True, False], [True, False], [True, False], [True, False], [False, False],
          [False, True]] \<and>
   events_to_target
     ([\<lparr>event = Label ''Dog'', onset = Finite_float (3602879701896397 / 36028797018963968),
         offset = Finite_float (5404319552844595 / 18014398509481984)\<rparr>,
       \<lparr>event = Label ''Dog'', onset = Finite_float (3602879701896397 / 9007199254740992),
         offset = Finite_float (5404319552844595 / 9007199254740992)\<rparr>,
       \<lparr>event = NaN, onset = Not_a_number, offset = Not_a_number\<rparr>,
       \<lparr>event = Label ''Blender'', onset = Finite_float 1, offset = Finite_float 1\<rparr>] @
      [\<lparr>event = Label ''Dog'', onset = Finite_float (3602879701896397 / 36028797018963968),
         offset = Finite_float (5404319552844595 / 18014398509481984)\<rparr>])
     6 2 5 [''Dog'' \<mapsto> 0, ''Blender'' \<mapsto> 1]
   = Inr [[True, False], [True, False], [True, False], [True, False], [False, False],
          [False, True]]"
proof -
  let ?e1 = "\<lparr>event = Label ''Dog'', onset = Finite_float (3602879701896397 / 36028797018963968),
        offset = Finite_float (5404319552844595 / 18014398509481984)\<rparr>"
  let ?e2 = "\<lparr>event = Label ''Dog'', onset = Finite_float (3602879701896397 / 9007199254740992),
        offset = Finite_float (5404319552844595 / 9007199254740992)\<rparr>"
  let ?e3 = "\<lparr>event = NaN, onset = Not_a_number, offset = Not_a_number\<rparr>"
  let ?e4 = "\<lparr>event = Label ''Blender'', onset = Finite_float 1, offset = Finite_float 1\<rparr>"
  let ?es = "[?e1, ?e2, ?e3, ?e4]"
  let ?m = "[''Dog'' \<mapsto> 0::int, ''Blender'' \<mapsto> 1]"
  have h1: "\<forall>e\<in>set ?es. \<forall>s. event e = Label s \<longrightarrow>
             (\<exists>i. ?m s = Some i \<and> 0 \<le> i \<and> i < int 2)"
    by simp
  have f1: "onset_frame 5 ?e1 = Inr 0 \<and> offset_frame 5 ?e1 = Inr 3"
    by code_simp
  have f2: "onset_frame 5 ?e2 = Inr 2 \<and> offset_frame 5 ?e2 = Inr 4"
    by code_simp
  have f4: "onset_frame 5 ?e4 = Inr 5 \<and> offset_frame 5 ?e4 = Inr 6"
    by code_simp
  have g1: "\<exists>a b. onset_frame 5 ?e1 = Inr a \<and> offset_frame 5 ?e1 = Inr b \<and> 0 \<le> a \<and> 0 \<le> b"
    using f1 by (intro exI[of _ 0] exI[of _ 3]) simp
  have g2: "\<exists>a b. onset_frame 5 ?e2 = Inr a \<and> offset_frame 5 ?e2 = Inr b \<and> 0 \<le> a \<and> 0 \<le> b"
    using f2 by (intro exI[of _ 2] exI[of _ 4]) simp
  have g4: "\<exists>a b. onset_frame 5 ?e4 = Inr a \<and> offset_frame 5 ?e4 = Inr b \<and> 0 \<le> a \<and> 0 \<le> b"
    using f4 by (intro exI[of _ 5] exI[of _ 6]) simp
  have h2: "\<forall>e\<in>set ?es. event e \<noteq> NaN \<longrightarrow>
             (\<exists>a b. onset_frame 5 e = Inr a \<and> offset_frame 5 e = Inr b \<and> 0 \<le> a \<and> 0 \<le> b)"
    using g1 g2 g4 by (simp only: list.set ball_simps ball_empty) simp
  have v: "events_to_target ?es 6 2 5 ?m
             = Inr [[True, False], [True, False], [True, False], [True, False], [False, False],
                    [False, True]]"
    by code_simp
  from events_to_target_exact_cells[OF h1 h2, of 6] obtain t where
    t1: "events_to_target ?es 6 2 5 ?m = Inr t" and
    t2: "\<forall>e\<in>set ?es. events_to_target (?es @ [e]) 6 2 5 ?m = Inr t"
    by blast
  have teq: "t = [[True, False], [True, False], [True, False], [True, False], [False, False],
                  [False, True]]"
    using t1 v by (metis Inr_inject)
  have "?e1 \<in> set ?es"
    by simp
  with t2 have "events_to_target (?es @ [?e1]) 6 2 5 ?m = Inr t"
    by blast
  then have r: "events_to_target (?es @ [?e1]) 6 2 5 ?m
      = Inr [[True, False], [True, False], [True, False], [True, False], [False, False],
             [False, True]]"
    using teq by (simp only:)
  from v r show ?thesis by (rule conjI)
qed

text \<open>
  The claim as first stated speaks of every event list. Three lists show what it
  leaves out. An event whose name is not a key of the map makes the lookup raise
  KeyError, so that no matrix is returned. An event with a negative onset frame is
  resolved by the slice from the end of the matrix: with onset frame \<open>-1\<close> and offset
  frame \<open>1\<close> on four rows the slice \<^verbatim>\<open>[-1:1]\<close> is empty and row \<open>0\<close>, which lies in
  \<open>[-1, 1)\<close>, is not set. And a named event whose onset is NaN has no onset frame:
  \<^verbatim>\<open>round\<close> raises ValueError.
\<close>

theorem events_to_target_exact_cells_counterexample:
  "events_to_target
     [\<lparr>event = Label ''Cat'', onset = Finite_float 0, offset = Finite_float 1\<rparr>]
     4 1 1 [''Dog'' \<mapsto> 0] = Inl KeyError \<and>
   onset_frame 1 \<lparr>event = Label ''Dog'', onset = Finite_float (- 1), offset = Finite_float 0\<rparr>
     = Inr (- 1) \<and>
   offset_frame 1 \<lparr>event = Label ''Dog'', onset = Finite_float (- 1), offset = Finite_float 0\<rparr>
     = Inr 1 \<and>
   events_to_target
     [\<lparr>event = Label ''Dog'', onset = Finite_float (- 1), offset = Finite_float 0\<rparr>]
     4 1 1 [''Dog'' \<mapsto> 0] = Inr [[False], [False], [False], [False]] \<and>
   events_to_target
     [\<lparr>event = Label ''Dog'', onset = Not_a_number, offset = Finite_float 1\<rparr>]
     4 1 1 [''Dog'' \<mapsto> 0] = Inl ValueError"
  by code_simp

text \<open>
  Claim C10, in the form that holds. Take an event list in which every event with a
  name other than the NaN marker has a name that is a key of \<open>lb_to_idx\<close> with an index
  in \<open>[0, classes_num)\<close> and has both frame numbers defined (no NaN or infinite time
  or float product). Then \<open>events_to_target\<close> raises no error, however large the frame
  numbers are: it returns a matrix of exactly \<open>frames_num\<close> rows and \<open>classes_num\<close>
  columns, and the rows set for an event are those of its slice as numpy resolves it,
  each bound having \<open>frames_num\<close> added when it is negative and then being clipped to
  \<open>[0, frames_num]\<close> (\<open>slice_bound\<close>). So nothing is written at or beyond row
  \<open>frames_num\<close>, and an offset frame beyond the matrix is cut to \<open>frames_num\<close>.
\<close>

theorem events_to_target_clamped:
  assumes vocab: "\<forall>e\<in>set events. \<forall>s. event e = Label s \<longrightarrow>
             (\<exists>i. lb_to_idx s = Some i \<and> 0 \<le> i \<and> i < int classes_num)"
    and frames: "\<forall>e\<in>set events. event e \<noteq> NaN \<longrightarrow>
             (\<exists>a b. onset_frame fps e = Inr a \<and> offset_frame fps e = Inr b)"
  shows "\<exists>target. events_to_target events frames_num classes_num fps lb_to_idx = Inr target \<and>
           length target = frames_num \<and>
           (\<forall>row\<in>set target. length row = classes_num) \<and>
           (\<forall>r<frames_num. \<forall>c<classes_num. target ! r ! c =
              (\<exists>e\<in>set events. \<exists>s a b. event e = Label s \<and> lb_to_idx s = Some (int c) \<and>
                 onset_frame fps e = Inr a \<and> offset_frame fps e = Inr b \<and>
                 slice_bound frames_num a \<le> r \<and> r < slice_bound frames_num b)) \<and>
           (\<forall>i. slice_bound frames_num i \<le> frames_num) \<and>
           (\<forall>i\<ge>0. slice_bound frames_num i = nat (min i (int frames_num)))"
proof -
  from events_to_target_char[OF vocab frames, of frames_num] obtain t where t:
    "events_to_target events frames_num classes_num fps lb_to_idx = Inr t"
    "length t = frames_num" "\<forall>row\<in>set t. length row = classes_num"
    "\<forall>r<frames_num. \<forall>c<classes_num. t ! r ! c =
              (\<exists>e\<in>set events. \<exists>s. event e = Label s \<and> lb_to_idx s = Some (int c) \<and>
                 event_covers fps frames_num e r)"
    by blast
  have "\<forall>r<frames_num. \<forall>c<classes_num. t ! r ! c =
              (\<exists>e\<in>set events. \<exists>s a b. event e = Label s \<and> lb_to_idx s = Some (int c) \<and>
                 onset_frame fps e = Inr a \<and> offset_frame fps e = Inr b \<and>
                 slice_bound frames_num a \<le> r \<and> r < slice_bound frames_num b)"
    using t(4) by (simp add: event_covers_iff)
  moreover have "\<forall>i. slice_bound frames_num i \<le> frames_num"
    by (simp add: slice_bound_le)
  moreover have "\<forall>i\<ge>0. slice_bound frames_num i = nat (min i (int frames_num))"
    by (simp add: slice_bound_nonneg)
  ultimately show ?thesis using t(1,2,3) by blast
qed

text \<open>
  The theorem at an event whose offset frame, \<open>11\<close>, is beyond the ten rows of the
  matrix: rows \<open>5\<close> to \<open>9\<close> are set and the rest of the range is dropped.
\<close>

theorem events_to_target_clamped_witness:
  "events_to_target
     [\<lparr>event = Label ''Dog'', onset = Finite_float 1, offset = Finite_float 2\<rparr>]
     10 3 5 [''Dog'' \<mapsto> 0]
     = Inr [[False, False, False], [False, False, False], [False, False, False],
            [False, False, False], [False, False, False], [True, False, False],
            [True, False, False], [True, False, False], [True, False, False],
            [True, False, False]] \<and>
   offset_frame 5 \<lparr>event = Label ''Dog'', onset = Finite_float 1, offset = Finite_float 2\<rparr>
     = Inr 11"
proof -
  let ?e = "\<lparr>event = Label ''Dog'', onset = Finite_float 1, offset = Finite_float 2\<rparr>"
  have h: "\<forall>e\<in>set [?e]. \<forall>s. event e = Label s \<longrightarrow>
             (\<exists>i. [''Dog'' \<mapsto> 0::int] s = Some i \<and> 0 \<le> i \<and> i < int 3)"
    by simp
  have f: "onset_frame 5 ?e = Inr 5 \<and> offset_frame 5 ?e = Inr 11"
    by code_simp
  have g: "\<forall>e\<in>set [?e]. event e \<noteq> NaN \<longrightarrow>
             (\<exists>a b. onset_frame 5 e = Inr a \<and> offset_frame 5 e = Inr b)"
    using f by simp
  have v: "events_to_target [?e] 10 3 5 [''Dog'' \<mapsto> 0]
     = Inr [[False, False, False], [False, False, False], [False, False, False],
            [False, False, False], [False, False, False], [True, False, False],
            [True, False, False], [True, False, False], [True, False, False],
            [True, False, False]]"
    by code_simp
  from events_to_target_clamped[OF h g, of 10] v f show ?thesis
    by blast
qed

text \<open>
  The claim as first stated has \<open>events_to_target\<close> never raise, for every event list,
  and the row range clamped to the bounds of the matrix. An event whose name is not a
  key of the map raises KeyError, here with an offset frame beyond the matrix as
  well. A named event with an infinite offset raises OverflowError at \<^verbatim>\<open>round\<close>. And
  a negative onset frame is not clamped to row \<open>0\<close>: with onset frame \<open>-3\<close> and offset
  frame \<open>3\<close> on four rows the slice \<^verbatim>\<open>[-3:3]\<close> is rows \<open>1\<close> and \<open>2\<close>, and row \<open>0\<close> stays
  unset.
\<close>

theorem events_to_target_clamped_counterexample:
  "events_to_target
     [\<lparr>event = Label ''Speech'', onset = Finite_float 1, offset = Finite_float 3\<rparr>]
     10 3 5 [''Dog'' \<mapsto> 0] = Inl KeyError \<and>
   events_to_target
     [\<lparr>event = Label ''Dog'', onset = Finite_float 1, offset = Pos_inf\<rparr>]
     10 3 5 [''Dog'' \<mapsto> 0] = Inl OverflowError \<and>
   events_to_target
     [\<lparr>event = Label ''Dog'', onset = Finite_float (- 3), offset = Finite_float 2\<rparr>]
     4 1 1 [''Dog'' \<mapsto> 0] = Inr [[False], [True], [True], [False]]"
  by code_simp

section \<open>Properties of the video feature transform\<close>

subsection \<open>The frame loop\<close>

text \<open>
  The loop never calls \<^verbatim>\<open>release\<close>, and the only exceptions that leave it are those of
  \<^verbatim>\<open>cv2.resize\<close> and \<^verbatim>\<open>cv2.cvtColor\<close>. With colour, it succeeds when every position it
  seeks holds a frame that decodes, and then every frame of the stack has the shape
  \<open>(width, height, 3)\<close>.
\<close>

lemma cap_read_released: "released (fst (cap_read cap)) = released cap"
  by (simp add: cap_read_def Let_def split: option.splits)

lemma cap_read_video: "cap_video (fst (cap_read cap)) = cap_video cap"
  by (simp add: cap_read_def Let_def split: option.splits)

lemma frames_loop_released:
  "released (fst (frames_loop frames width height color is cap framearray)) = released cap"
proof (induction "is" arbitrary: cap framearray)
  case Nil
  then show ?case by simp
next
  case (Cons i "is")
  obtain cap2 ret frame where r: "cap_read (cap_set_pos_frames cap (frames ! i)) = (cap2, ret, frame)"
    by (metis prod_cases3)
  have c2: "released cap2 = released cap"
    using cap_read_released[of "cap_set_pos_frames cap (frames ! i)"] r
    by (simp add: cap_set_pos_frames_def)
  show ?case
  proof (cases "cv_resize frame (height, width)")
    case (Inl e')
    with r c2 show ?thesis by simp
  next
    case (Inr frame')
    show ?thesis
    proof (cases color)
      case True
      with r c2 Inr Cons.IH show ?thesis by simp
    next
      case False
      show ?thesis
      proof (cases "cv_cvtColor_BGR2GRAY frame'")
        case (Inl e')
        with r c2 Inr False show ?thesis by simp
      next
        case g: (Inr gray)
        with r c2 Inr False Cons.IH show ?thesis by simp
      qed
    qed
  qed
qed

lemma cv_resize_error: "cv_resize frame dsize = Inl e \<Longrightarrow> e = CvError"
  by (auto simp: cv_resize_def split: option.splits if_splits)

lemma cv_cvtColor_error: "cv_cvtColor_BGR2GRAY img = Inl e \<Longrightarrow> e = CvError"
  by (auto simp: cv_cvtColor_BGR2GRAY_def split: if_splits)

lemma frames_loop_error:
  "snd (frames_loop frames width height color is cap framearray) = Inl e \<Longrightarrow> e = CvError"
proof (induction "is" arbitrary: cap framearray)
  case Nil
  then show ?case by simp
next
  case (Cons i "is")
  obtain cap2 ret frame where r: "cap_read (cap_set_pos_frames cap (frames ! i)) = (cap2, ret, frame)"
    by (metis prod_cases3)
  show ?case
  proof (cases "cv_resize frame (height, width)")
    case (Inl e')
    with Cons.prems r show ?thesis by (auto dest: cv_resize_error)
  next
    case (Inr frame')
    show ?thesis
    proof (cases color)
      case True
      with Cons.prems r Inr Cons.IH show ?thesis by simp
    next
      case False
      show ?thesis
      proof (cases "cv_cvtColor_BGR2GRAY frame'")
        case (Inl e')
        with Cons.prems r Inr False show ?thesis by (auto dest: cv_cvtColor_error)
      next
        case g: (Inr gray)
        with Cons.prems r Inr False Cons.IH show ?thesis by simp
      qed
    qed
  qed
qed

lemma np_transpose_repeated_axis: "np_transpose X [1, 2, 0, 0] = Inl ValueError"
  by (simp add: np_transpose_def)

lemma np_transpose_error: "np_transpose X axes = Inl e \<Longrightarrow> e = ValueError"
  by (auto simp: np_transpose_def split: if_splits)

lemma frames_loop_color:
  assumes "0 < width" and "0 < height"
    and "\<forall>i\<in>set is. 0 \<le> \<lfloor>frames ! i\<rfloor> \<and> \<lfloor>frames ! i\<rfloor> < int (length (cap_video cap)) \<and>
           cap_video cap ! nat \<lfloor>frames ! i\<rfloor> \<noteq> None"
  shows "\<exists>cap' fa. frames_loop frames width height True is cap framearray = (cap', Inr (framearray @ fa)) \<and>
           length fa = length is \<and> (\<forall>f\<in>set fa. im_shape f = [width, height, 3])"
  using assms(3)
proof (induction "is" arbitrary: cap framearray)
  case Nil
  then show ?case by simp
next
  case (Cons i "is")
  let ?cap1 = "cap_set_pos_frames cap (frames ! i)"
  from Cons.prems have k: "0 \<le> \<lfloor>frames ! i\<rfloor>" "\<lfloor>frames ! i\<rfloor> < int (length (cap_video cap))"
    and "cap_video cap ! nat \<lfloor>frames ! i\<rfloor> \<noteq> None"
    by simp_all
  then obtain p where p: "cap_video cap ! nat \<lfloor>frames ! i\<rfloor> = Some p" by auto
  define cap2 where "cap2 = ?cap1\<lparr>cap_pos := of_int \<lfloor>frames ! i\<rfloor> + 1\<rparr>"
  have r: "cap_read ?cap1 = (cap2, True, Some p)"
    using k p by (simp add: cap_read_def cap_set_pos_frames_def cap2_def Let_def)
  have v2: "cap_video cap2 = cap_video cap"
    by (simp add: cap2_def cap_set_pos_frames_def)
  define fr where "fr = \<lparr>im_shape = [width, height, 3], im_source = p\<rparr>"
  have rs: "cv_resize (Some p) (height, width) = Inr fr"
    using assms(1,2) by (simp add: cv_resize_def fr_def)
  have "\<forall>i\<in>set is. 0 \<le> \<lfloor>frames ! i\<rfloor> \<and> \<lfloor>frames ! i\<rfloor> < int (length (cap_video cap2)) \<and>
           cap_video cap2 ! nat \<lfloor>frames ! i\<rfloor> \<noteq> None"
    using Cons.prems v2 by simp
  from Cons.IH[OF this, of "framearray @ [fr]"] obtain cap' fa where fa:
    "frames_loop frames width height True is cap2 (framearray @ [fr]) = (cap', Inr ((framearray @ [fr]) @ fa))"
    "length fa = length is" "\<forall>f\<in>set fa. im_shape f = [width, height, 3]"
    by blast
  have "frames_loop frames width height True (i # is) cap framearray = (cap', Inr (framearray @ (fr # fa)))"
    using r rs fa(1) by simp
  moreover have "length (fr # fa) = length (i # is)" using fa(2) by simp
  moreover have "\<forall>f\<in>set (fr # fa). im_shape f = [width, height, 3]"
    using fa(3) by (simp add: fr_def)
  ultimately show ?case by blast
qed

lemma skip_position_in_range:
  assumes "x < depth" and "0 < n"
  shows "0 \<le> \<lfloor>rat_of_nat x * rat_of_nat n / rat_of_nat depth\<rfloor> \<and>
         \<lfloor>rat_of_nat x * rat_of_nat n / rat_of_nat depth\<rfloor> < int n"
proof
  have "0 \<le> rat_of_nat x * rat_of_nat n / rat_of_nat depth" by simp
  then show "0 \<le> \<lfloor>rat_of_nat x * rat_of_nat n / rat_of_nat depth\<rfloor>" by simp
next
  have d: "0 < rat_of_nat depth" using assms(1) by simp
  have "rat_of_nat x * rat_of_nat n < rat_of_nat depth * rat_of_nat n"
    using assms by simp
  then have "rat_of_nat x * rat_of_nat n / rat_of_nat depth < rat_of_nat n"
    using d by (simp add: divide_less_eq mult.commute)
  then show "\<lfloor>rat_of_nat x * rat_of_nat n / rat_of_nat depth\<rfloor> < int n"
    by (simp add: floor_less_iff)
qed

lemma video3d_frames_color_shape:
  assumes "0 < width" and "0 < height" and "0 < depth"
    and "filename \<noteq> []" and "None \<notin> set filename"
  shows "\<exists>cap t. video3d_frames filename width height depth True True = (cap, Inr t) \<and>
           nd_shape t = [width, height, depth, 3] \<and> released cap"
proof -
  define n where "n = length filename"
  have n: "0 < n" using assms(4) by (simp add: n_def)
  define frames where "frames = map (\<lambda>x. rat_of_nat x * rat_of_nat n / rat_of_nat depth) [0..<depth]"
  have "\<forall>i\<in>set [0..<depth]. 0 \<le> \<lfloor>frames ! i\<rfloor> \<and>
          \<lfloor>frames ! i\<rfloor> < int (length (cap_video (VideoCapture filename))) \<and>
           cap_video (VideoCapture filename) ! nat \<lfloor>frames ! i\<rfloor> \<noteq> None"
  proof
    fix i assume "i \<in> set [0..<depth]"
    then have i: "i < depth" by simp
    then have fi: "frames ! i = rat_of_nat i * rat_of_nat n / rat_of_nat depth"
      by (simp add: frames_def)
    from skip_position_in_range[OF i n] have r: "0 \<le> \<lfloor>frames ! i\<rfloor>" "\<lfloor>frames ! i\<rfloor> < int n"
      using fi by simp_all
    then have "nat \<lfloor>frames ! i\<rfloor> < length filename" unfolding n_def by linarith
    then have "filename ! nat \<lfloor>frames ! i\<rfloor> \<in> set filename" by simp
    with assms(5) have "filename ! nat \<lfloor>frames ! i\<rfloor> \<noteq> None" by metis
    with r show "0 \<le> \<lfloor>frames ! i\<rfloor> \<and>
          \<lfloor>frames ! i\<rfloor> < int (length (cap_video (VideoCapture filename))) \<and>
           cap_video (VideoCapture filename) ! nat \<lfloor>frames ! i\<rfloor> \<noteq> None"
      by (simp add: VideoCapture_def n_def)
  qed
  from frames_loop_color[OF assms(1,2) this, of "[]"] obtain cap' fa where fa:
    "frames_loop frames width height True [0..<depth] (VideoCapture filename) [] = (cap', Inr fa)"
    "length fa = depth" "\<forall>f\<in>set fa. im_shape f = [width, height, 3]"
    by auto
  from fa(2) assms(3) obtain f fs where ffs: "fa = f # fs" by (cases fa) auto
  then have "im_shape f = [width, height, 3]" using fa(3) by simp
  then have sh: "nd_shape (np_array fa) = [depth, width, height, 3]"
    using ffs fa(2) by (simp add: np_array_def)
  have tr: "np_transpose (np_array fa) [1, 2, 0, 3] =
          Inr ((np_array fa)\<lparr>nd_shape := [width, height, depth, 3]\<rparr>)"
    using sh by (simp add: np_transpose_def)
  have "video3d_frames filename width height depth True True =
          (cap_release cap', Inr ((np_array fa)\<lparr>nd_shape := [width, height, depth, 3]\<rparr>))"
    using fa(1) tr
    by (simp add: video3d_frames_def Let_def frames_def cap_get_frame_count_def VideoCapture_def n_def)
  then show ?thesis by (simp add: cap_release_def)
qed

text \<open>
  Whatever the video, a call with colour that returns has decoded and resized
  \<open>depth\<close> frames, \<open>depth\<close> at least one, to a size without an empty side, and its result
  has the shape \<open>(width, height, depth, 3)\<close>.
\<close>

lemma frames_loop_success_shapes:
  assumes "frames_loop frames width height True is cap framearray = (cap', Inr fa)"
  shows "\<exists>new. fa = framearray @ new \<and> length new = length is \<and>
           (\<forall>f\<in>set new. im_shape f = [width, height, 3]) \<and>
           (is \<noteq> [] \<longrightarrow> 0 < width \<and> 0 < height)"
  using assms
proof (induction "is" arbitrary: cap framearray)
  case Nil
  then show ?case by simp
next
  case (Cons i "is")
  obtain cap2 ret frame where r: "cap_read (cap_set_pos_frames cap (frames ! i)) = (cap2, ret, frame)"
    by (metis prod_cases3)
  show ?case
  proof (cases "cv_resize frame (height, width)")
    case (Inl e)
    with Cons.prems r show ?thesis by simp
  next
    case (Inr fr)
    then have fr: "im_shape fr = [width, height, 3]" "0 < width" "0 < height"
      by (auto simp: cv_resize_def split: option.splits if_splits)
    have "frames_loop frames width height True is cap2 (framearray @ [fr]) = (cap', Inr fa)"
      using Cons.prems r Inr by simp
    from Cons.IH[OF this] obtain new where new:
      "fa = (framearray @ [fr]) @ new" "length new = length is"
      "\<forall>f\<in>set new. im_shape f = [width, height, 3]"
      by blast
    have "fa = framearray @ (fr # new)" using new(1) by simp
    moreover have "length (fr # new) = length (i # is)" using new(2) by simp
    moreover have "\<forall>f\<in>set (fr # new). im_shape f = [width, height, 3]"
      using new(3) fr(1) by simp
    ultimately show ?thesis using fr(2,3) by blast
  qed
qed

lemma video3d_frames_success_shape:
  assumes "snd (video3d_frames filename width height depth True skip) = Inr t"
  shows "nd_shape t = [width, height, depth, 3] \<and> 0 < width \<and> 0 < height \<and> 0 < depth"
proof -
  define frames where "frames = (if skip
      then map (\<lambda>x. of_nat x * cap_get_frame_count (VideoCapture filename) / of_nat depth) [0..<depth]
      else map of_nat [0..<depth])"
  obtain cap' res where l:
    "frames_loop frames width height True [0..<depth] (VideoCapture filename) [] = (cap', res)"
    by (metis surj_pair)
  show ?thesis
  proof (cases res)
    case (Inl e)
    with l assms show ?thesis
      by (simp add: video3d_frames_def Let_def frames_def)
  next
    case (Inr fa)
    from frames_loop_success_shapes[OF l[unfolded Inr]] have fa:
      "length fa = depth" "\<forall>f\<in>set fa. im_shape f = [width, height, 3]"
      "[0..<depth] \<noteq> [] \<longrightarrow> 0 < width \<and> 0 < height"
      by auto
    have tr: "np_transpose (np_array fa) [1, 2, 0, 3] = Inr t"
      using assms l Inr by (simp add: video3d_frames_def Let_def frames_def)
    show ?thesis
    proof (cases fa)
      case Nil
      with tr show ?thesis by (simp add: np_transpose_def np_array_def)
    next
      case (Cons f fs)
      then have d: "0 < depth" using fa(1) by auto
      have "im_shape f = [width, height, 3]" using fa(2) Cons by simp
      then have sh: "nd_shape (np_array fa) = [depth, width, height, 3]"
        using Cons fa(1) by (simp add: np_array_def)
      have "nd_shape t = [width, height, depth, 3]"
        using tr sh by (auto simp: np_transpose_def split: if_splits)
      with d fa(3) show ?thesis by simp
    qed
  qed
qed

subsection \<open>Shape of the result\<close>

text \<open>
  Claim C3 has \<^verbatim>\<open>video3d_frames\<close> return a tensor of shape
  \<open>(width, height, frame_count, channels)\<close> for both values of the colour flag, with
  one channel when it is false. With colour the shape is as claimed
  (\<open>video3d_frames_color_shape\<close> above, for a video of at least one frame, all of them
  decoding, and \<^verbatim>\<open>skip=True\<close>). Without colour the function returns nothing at all,
  for every video and all sizes: when the loop does not fail, the grey frames are
  stacked into an array of three axes and \<^verbatim>\<open>transpose((1, 2, 0, 0))\<close>, which names four
  axes and one of them twice, raises ValueError.
\<close>

theorem video3d_frames_gray_raises:
  "\<exists>e. snd (video3d_frames filename width height depth False skip) = Inl e"
proof -
  define frames where "frames = (if skip
      then map (\<lambda>x. of_nat x * cap_get_frame_count (VideoCapture filename) / of_nat depth) [0..<depth]
      else map of_nat [0..<depth])"
  obtain cap' res where l:
    "frames_loop frames width height False [0..<depth] (VideoCapture filename) [] = (cap', res)"
    by (metis surj_pair)
  show ?thesis
  proof (cases res)
    case (Inl e)
    with l show ?thesis
      by (simp add: video3d_frames_def Let_def frames_def)
  next
    case (Inr framearray)
    have "np_transpose (np_array framearray) [1, 2, 0, 0] = Inl ValueError"
      by (rule np_transpose_repeated_axis)
    with Inr l show ?thesis
      by (simp add: video3d_frames_def Let_def frames_def)
  qed
qed

text \<open>A video of three frames, two of them sampled, without colour.\<close>

lemma video3d_frames_gray_example:
  "video3d_frames [Some ''f0'', Some ''f1'', Some ''f2''] 4 5 2 False True =
     (\<lparr>cap_video = [Some ''f0'', Some ''f1'', Some ''f2''], cap_pos = 2, released = True\<rparr>,
      Inl ValueError)"
  by code_simp

subsection \<open>Release of the decoder\<close>

text \<open>
  Claim C5, in the form that holds. \<^verbatim>\<open>video3d_frames\<close> calls \<^verbatim>\<open>release\<close> on the decoder
  exactly on the paths that get past the frame loop: when it returns the tensor and
  when the final transpose raises. When decoding, resizing or colour conversion of a
  selected frame fails, the exception leaves the function and \<^verbatim>\<open>release\<close> is not
  called. So the handle is released when the function ends if and only if it does
  not end in a \<^verbatim>\<open>cv2\<close> error.
\<close>

theorem video3d_frames_release_iff:
  "released (fst (video3d_frames filename width height depth color skip)) \<longleftrightarrow>
   snd (video3d_frames filename width height depth color skip) \<noteq> Inl CvError"
proof -
  define frames where "frames = (if skip
      then map (\<lambda>x. of_nat x * cap_get_frame_count (VideoCapture filename) / of_nat depth) [0..<depth]
      else map of_nat [0..<depth])"
  obtain cap' res where l: "frames_loop frames width height color [0..<depth] (VideoCapture filename) [] = (cap', res)"
    by (metis surj_pair)
  have rel: "released cap' = False"
    using frames_loop_released[of frames width height color "[0..<depth]" "VideoCapture filename" "[]"] l
    by (simp add: VideoCapture_def)
  show ?thesis
  proof (cases res)
    case (Inl e)
    then have "e = CvError"
      using frames_loop_error[of frames width height color "[0..<depth]" "VideoCapture filename" "[]" e] l
      by simp
    with Inl l rel show ?thesis
      by (simp add: video3d_frames_def Let_def frames_def)
  next
    case (Inr framearray)
    have "np_transpose (np_array framearray) axes \<noteq> Inl CvError" for axes
      using np_transpose_error[of "np_array framearray" axes CvError] by auto
    with Inr l show ?thesis
      by (simp add: video3d_frames_def Let_def frames_def cap_release_def)
  qed
qed

text \<open>
  The claim as first stated has the handle released on every path. With
  \<^verbatim>\<open>skip=False\<close>, two frames asked of a video that has one: the second read delivers
  \<^verbatim>\<open>None\<close>, \<^verbatim>\<open>cv2.resize\<close> raises, and the capture is left unreleased.
\<close>

theorem video3d_frames_release_counterexample:
  "snd (video3d_frames [Some ''frame0''] 2 2 2 True False) = Inl CvError \<and>
   \<not> released (fst (video3d_frames [Some ''frame0''] 2 2 2 True False))"
  by code_simp

section \<open>Properties of the audio feature transform\<close>

subsection \<open>Shapes\<close>

text \<open>
  The padded signal has \<open>total_samples\<close> samples, transposition swaps the two axes of a
  matrix that has a row, and the product of an \<open>n \<times> k\<close> with a \<open>k \<times> m\<close> matrix is
  \<open>n \<times> m\<close>. With the two library calls returning arrays of their documented shapes,
  the transform of a signal of \<open>n\<close> samples is a matrix of exactly \<open>1 + n div hop_size\<close>
  rows and \<open>mel_bins\<close> columns.
\<close>

lemma length_pad_truncate_sequence: "length (pad_truncate_sequence x max_len) = max_len"
  by (simp add: pad_truncate_sequence_def)

lemma matrix_shape_is_nth:
  "matrix_shape_is r c m \<longleftrightarrow> length m = r \<and> (\<forall>i<length m. length (m ! i) = c)"
  by (auto simp: matrix_shape_is_def list_all_length)

lemma transpose_shape:
  assumes "matrix_shape_is r c m" and "0 < r"
  shows "matrix_shape_is c r (transpose m)"
proof -
  from assms have len: "length m = r" and rows: "\<forall>i<length m. length (m ! i) = c"
    by (simp_all add: matrix_shape_is_nth)
  have e: "m = [] \<Longrightarrow> c = 0" using len assms(2) by auto
  have "transpose m = map (\<lambda>i. map (\<lambda>j. m ! j ! i) [0..<length m]) [0..<c]"
    by (rule transpose_rectangle) (use e rows in auto)
  then show ?thesis using len by (simp add: matrix_shape_is_nth)
qed

lemma np_dot_shape:
  assumes "matrix_shape_is n k A" and "matrix_shape_is k m B" and "0 < k"
  shows "\<exists>C. np_dot A B = Inr C \<and> matrix_shape_is n m C"
proof -
  from assms(2,3) obtain b bs where B: "B = b # bs" "length b = m"
    by (cases B) (auto simp: matrix_shape_is_def)
  have "list_all (\<lambda>row. length row = length B) A"
    using assms(1,2) by (simp add: matrix_shape_is_def)
  then show ?thesis
    using assms(1) B by (simp add: np_dot_def matrix_shape_is_nth)
qed

lemma matrix_shape_is_map: "matrix_shape_is r c (map (map f) m) = matrix_shape_is r c m"
  by (simp add: matrix_shape_is_nth)

lemma transform_mel_spectrogram:
  "transform lib self audio =
     (case mel_spectrogram lib self audio of
        Inl e \<Rightarrow> Inl e
      | Inr M \<Rightarrow> Inr (map (map (astype_float32 lib)) (map (map (librosa_power_to_db lib)) M)))"
  by (simp add: transform_def mel_spectrogram_def Let_def split: sum.splits)

lemma mel_spectrogram_shape:
  assumes stft: "stft_shape_contract lib (cfg_window_size cfg) (cfg_hop_size cfg) (length y)"
    and mel: "mel_shape_contract lib cfg"
    and bins: "0 < cfg_mel_bins cfg"
  shows "\<exists>M. mel_spectrogram lib (config_extractor lib cfg) y = Inr M \<and>
             matrix_shape_is (1 + length y div cfg_hop_size cfg) (cfg_mel_bins cfg) M"
proof -
  let ?ex = "config_extractor lib cfg"
  let ?B = "1 + cfg_window_size cfg div 2"
  let ?N = "1 + length y div cfg_hop_size cfg"
  let ?S = "librosa_stft lib y (ex_window_size ?ex) (ex_hop_size ?ex) (ex_window_func ?ex)"
  have S: "matrix_shape_is ?B ?N ?S"
    using stft
    by (simp add: stft_shape_contract_def config_extractor_def LogMelExtractor_init_def)
  have ST: "matrix_shape_is ?N ?B (transpose ?S)"
    by (rule transpose_shape[OF S]) simp
  have A: "matrix_shape_is ?N ?B (map (map (\<lambda>z. (cmod z)\<^sup>2)) (transpose ?S))"
    using ST by (simp add: matrix_shape_is_map)
  have W: "matrix_shape_is ?B (cfg_mel_bins cfg) (ex_melW ?ex)"
    using transpose_shape[OF mel[unfolded mel_shape_contract_def] bins]
    by (simp add: config_extractor_def LogMelExtractor_init_def)
  from np_dot_shape[OF A W] show ?thesis
    by (simp add: mel_spectrogram_def)
qed

lemma transform_shape:
  assumes stft: "stft_shape_contract lib (cfg_window_size cfg) (cfg_hop_size cfg) (length y)"
    and mel: "mel_shape_contract lib cfg"
    and bins: "0 < cfg_mel_bins cfg"
  shows "\<exists>F. transform lib (config_extractor lib cfg) y = Inr F \<and>
             matrix_shape_is (1 + length y div cfg_hop_size cfg) (cfg_mel_bins cfg) F"
proof -
  from mel_spectrogram_shape[OF assms] obtain M where M:
    "mel_spectrogram lib (config_extractor lib cfg) y = Inr M"
    "matrix_shape_is (1 + length y div cfg_hop_size cfg) (cfg_mel_bins cfg) M"
    by blast
  then show ?thesis
    by (simp add: transform_mel_spectrogram matrix_shape_is_map)
qed

lemma example_lib_stft: "stft_shape_contract example_lib n_fft hop n_samples"
  by (simp add: stft_shape_contract_def example_lib_def matrix_shape_is_def list_all_iff)

lemma example_lib_mel: "mel_shape_contract example_lib cfg"
  by (simp add: mel_shape_contract_def example_lib_def matrix_shape_is_def list_all_iff)

subsection \<open>Values\<close>










section \<open>Properties of the archive builder\<close>

subsection \<open>One item\<close>

lemma h5_resize_append: "length rows = n \<Longrightarrow> h5_resize (Suc n) fill rows = rows @ [fill]"
  by (simp add: h5_resize_def)

lemma h5_resize_write:
  "length rows = n \<Longrightarrow> (h5_resize (Suc n) fill rows)[n := v] = rows @ [v]"
  by (auto simp: h5_resize_def list_update_append)

lemma update_last_row: "length rows = n \<Longrightarrow> (rows @ [x])[n := v] = rows @ [v]"
  by (auto simp: list_update_append)

lemma last_row: "length rows = n \<Longrightarrow> (rows @ [x]) ! n = x"
  by (auto simp: nth_append)

lemma broadcast_matrix_exact:
  assumes "matrix_shape_is r c m"
  shows "broadcast_matrix r c m = m"
proof (rule nth_equalityI)
  from assms have len: "length m = r" and rows: "\<forall>i<length m. length (m ! i) = c"
    by (simp_all add: matrix_shape_is_nth)
  show "length (broadcast_matrix r c m) = length m"
    using len by (simp add: broadcast_matrix_def)
  fix i assume "i < length (broadcast_matrix r c m)"
  then have i: "i < r" by (simp add: broadcast_matrix_def)
  then have i0: "length m = 1 \<longrightarrow> i = 0" using len by auto
  have c0: "length (m ! 0) = c" using rows i len by auto
  have li: "length (m ! i) = c" using rows i len by auto
  have "map (\<lambda>j. m ! i ! (if length (m ! 0) = 1 then 0 else j)) [0..<c] = m ! i"
  proof (rule nth_equalityI)
    show "length (map (\<lambda>j. m ! i ! (if length (m ! 0) = 1 then 0 else j)) [0..<c]) = length (m ! i)"
      using li by simp
    fix j assume "j < length (map (\<lambda>j. m ! i ! (if length (m ! 0) = 1 then 0 else j)) [0..<c])"
    then have j: "j < c" by simp
    then have "(if length (m ! 0) = 1 then 0 else j) = j" using c0 by auto
    then have "m ! i ! (if length (m ! 0) = 1 then 0 else j) = m ! i ! j" by (simp only:)
    then show "map (\<lambda>j. m ! i ! (if length (m ! 0) = 1 then 0 else j)) [0..<c] ! j = m ! i ! j"
      using j by (simp only: nth_map_upt length_upt diff_zero add_0 nth_map nth_upt)
  qed
  then show "broadcast_matrix r c m ! i = m ! i"
    using i i0 by (auto simp: broadcast_matrix_def)
qed

lemma stored_feature_exact:
  assumes "matrix_shape_is (cfg_frames_num cfg) (cfg_mel_bins cfg) f"
  shows "stored_feature cfg f = Inr f"
proof (cases "cfg_frames_num cfg * cfg_mel_bins cfg = 0")
  case True
  from assms have len: "length f = cfg_frames_num cfg"
    and rows: "\<forall>i<length f. length (f ! i) = cfg_mel_bins cfg"
    by (simp_all add: matrix_shape_is_nth)
  have "replicate (cfg_frames_num cfg) (replicate (cfg_mel_bins cfg) 0) = f"
  proof (rule nth_equalityI)
    show "length (replicate (cfg_frames_num cfg) (replicate (cfg_mel_bins cfg) (0::real))) = length f"
      using len by simp
    fix i assume "i < length (replicate (cfg_frames_num cfg) (replicate (cfg_mel_bins cfg) (0::real)))"
    then have i: "i < cfg_frames_num cfg" by simp
    then have "cfg_mel_bins cfg = 0" using True by auto
    then have "f ! i = []" using rows i len by auto
    then show "replicate (cfg_frames_num cfg) (replicate (cfg_mel_bins cfg) (0::real)) ! i = f ! i"
      using i \<open>cfg_mel_bins cfg = 0\<close> by simp
  qed
  with True show ?thesis by (simp add: stored_feature_def h5_assign_matrix_def)
next
  case False
  then have pos: "0 < cfg_frames_num cfg" "0 < cfg_mel_bins cfg" by auto
  from assms pos obtain row rest where f: "f = row # rest" "length row = cfg_mel_bins cfg"
    "length f = cfg_frames_num cfg"
    by (cases f) (auto simp: matrix_shape_is_def)
  then have "np_shape2 f = [cfg_frames_num cfg, cfg_mel_bins cfg]"
    by (simp add: np_shape2_def)
  then show ?thesis
    using False broadcast_matrix_exact[OF assms]
    by (simp add: stored_feature_def h5_assign_matrix_def)
qed

lemma broadcastable_rev_same: "broadcastable_rev s s"
  by (induction s) simp_all

lemma stored_video_feature_exact:
  assumes "nd_shape v = video_row_shape cfg"
    and "0 < cfg_video_feature_dim cfg" and "0 < cfg_video_fps cfg"
  shows "stored_video_feature cfg v = Inr v"
  using assms broadcastable_rev_same[of "rev (video_row_shape cfg)"]
  by (simp add: stored_video_feature_def h5_assign_array_def video_row_shape_def)

lemma item_video_row_success:
  assumes "item_video_feature cfg env vd name = Inr v"
  shows "item_video_row cfg env vd name = Inr v"
proof -
  from video3d_frames_success_shape[OF assms[unfolded item_video_feature_def]]
  have "nd_shape v = video_row_shape cfg" "0 < cfg_video_feature_dim cfg" "0 < cfg_video_fps cfg"
    by (simp_all add: video_row_shape_def)
  from stored_video_feature_exact[OF this] assms show ?thesis
    by (simp add: item_video_row_def)
qed

lemma write_features_success:
  assumes "write_features cfg lib env ex ad vd n name hf = (hf', None)"
    and "length (feature hf) = n" and "length (video_feature hf) = n"
  shows "\<exists>f v. item_feature_row cfg lib env ex ad name = Inr f \<and>
               item_video_row cfg env vd name = Inr v \<and>
               hf' = hf\<lparr>feature := feature hf @ [f], video_feature := video_feature hf @ [v]\<rparr>"
  using assms
  by (auto simp: write_features_def item_feature_row_def item_feature_def stored_feature_def
        item_video_row_def item_video_feature_def stored_video_feature_def video_row_shape_def
        Let_def h5_resize_append update_last_row last_row
      split: sum.splits)

lemma write_features_run:
  assumes "item_feature_row cfg lib env ex ad name = Inr f"
    and "item_video_row cfg env vd name = Inr v"
    and "length (feature hf) = n" and "length (video_feature hf) = n"
  shows "write_features cfg lib env ex ad vd n name hf =
           (hf\<lparr>feature := feature hf @ [f], video_feature := video_feature hf @ [v]\<rparr>, None)"
  using assms
  by (auto simp: write_features_def item_feature_row_def item_feature_def stored_feature_def
        item_video_row_def item_video_feature_def stored_video_feature_def video_row_shape_def
        Let_def h5_resize_append update_last_row last_row
      split: sum.splits)

lemma write_features_names:
  "audio_name (fst (write_features cfg lib env ex ad vd n name hf)) = audio_name hf \<and>
   video_name (fst (write_features cfg lib env ex ad vd n name hf)) = video_name hf"
  by (simp add: write_features_def Let_def split: sum.splits)

lemma write_weak_target_success:
  assumes "write_weak_target cfg dict n name hf = (hf', None)"
    and "map_option length (weak_target hf) = Some n"
  shows "\<exists>rows t. weak_target hf = Some rows \<and> hf' = hf\<lparr>weak_target := Some (rows @ [t])\<rparr>"
  using assms
  by (auto simp: write_weak_target_def Let_def h5_resize_append update_last_row
      split: option.splits sum.splits)

lemma write_weak_target_names:
  "audio_name (fst (write_weak_target cfg dict n name hf)) = audio_name hf \<and>
   video_name (fst (write_weak_target cfg dict n name hf)) = video_name hf"
  by (simp add: write_weak_target_def Let_def split: option.splits sum.splits)

lemma write_strong_target_success:
  assumes "write_strong_target cfg dict n name hf = (hf', None)"
    and "map_option length (strong_target hf) = Some n"
  shows "\<exists>rows t. strong_target hf = Some rows \<and> hf' = hf\<lparr>strong_target := Some (rows @ [t])\<rparr>"
  using assms
  by (auto simp: write_strong_target_def Let_def h5_resize_append update_last_row
      split: option.splits sum.splits)

lemma write_strong_target_names:
  "audio_name (fst (write_strong_target cfg dict n name hf)) = audio_name hf \<and>
   video_name (fst (write_strong_target cfg dict n name hf)) = video_name hf"
  by (simp add: write_strong_target_def Let_def split: option.splits sum.splits)


text \<open>
  One pass of the loop body that raises nothing appends one row to each dataset that
  exists, the rows of both feature datasets being those of the item; the two name
  datasets are never written by the loop.
\<close>

lemma write_item_names:
  "audio_name (fst (write_item cfg lib env ex md ad vd n name hf)) = audio_name hf \<and>
   video_name (fst (write_item cfg lib env ex md ad vd n name hf)) = video_name hf"
proof -
  obtain hf1 e1 where f: "write_features cfg lib env ex ad vd n name hf = (hf1, e1)"
    by (metis surj_pair)
  have n1: "audio_name hf1 = audio_name hf" "video_name hf1 = video_name hf"
    using write_features_names[of cfg lib env ex ad vd n name hf] f by simp_all
  show ?thesis
  proof (cases e1)
    case (Some e)
    with f n1 show ?thesis by (simp add: write_item_def)
  next
    case None
    define r where "r = (if has_weak_labels md then write_weak_target cfg (audio_dict md) n name hf1
                else (hf1, None))"
    obtain hf2 e2 where w: "r = (hf2, e2)" by (metis surj_pair)
    have n2: "audio_name hf2 = audio_name hf" "video_name hf2 = video_name hf"
      using write_weak_target_names[of cfg "audio_dict md" n name hf1] w n1
      by (auto simp: r_def split: if_splits)
    show ?thesis
    proof (cases e2)
      case (Some e)
      with f None w n2 show ?thesis by (simp add: write_item_def r_def[symmetric])
    next
      case n: None
      show ?thesis
        using f None w n n2 write_strong_target_names[of cfg "audio_dict md" n name hf2]
        by (simp add: write_item_def r_def[symmetric])
    qed
  qed
qed

lemma write_item_success:
  assumes "write_item cfg lib env ex md ad vd n name hf = (hf', None)"
    and "rows_written md n hf"
  shows "rows_written md (Suc n) hf' \<and>
         (\<exists>f v. item_feature_row cfg lib env ex ad name = Inr f \<and>
                item_video_row cfg env vd name = Inr v \<and>
                feature hf' = feature hf @ [f] \<and> video_feature hf' = video_feature hf @ [v])"
proof -
  obtain hf1 e1 where f: "write_features cfg lib env ex ad vd n name hf = (hf1, e1)"
    by (metis surj_pair)
  have e1: "e1 = None" using assms(1) f by (cases e1) (simp_all add: write_item_def)
  from assms(2) have l: "length (feature hf) = n" "length (video_feature hf) = n"
    by (simp_all add: rows_written_def)
  from write_features_success[OF f[unfolded e1] l] obtain fr v where fv:
    "item_feature_row cfg lib env ex ad name = Inr fr" "item_video_row cfg env vd name = Inr v"
    "hf1 = hf\<lparr>feature := feature hf @ [fr], video_feature := video_feature hf @ [v]\<rparr>"
    by blast
  define r where "r = (if has_weak_labels md then write_weak_target cfg (audio_dict md) n name hf1
                else (hf1, None))"
  obtain hf2 e2 where w: "r = (hf2, e2)" by (metis surj_pair)
  have e2: "e2 = None"
    using assms(1) f e1 w by (cases e2) (simp_all add: write_item_def r_def[symmetric])
  have s: "(if has_strong_labels md then write_strong_target cfg (audio_dict md) n name hf2
            else (hf2, None)) = (hf', None)"
    using assms(1) f e1 w e2 by (simp add: write_item_def r_def[symmetric])
  have hf2: "feature hf2 = feature hf1 \<and> video_feature hf2 = video_feature hf1 \<and>
             strong_target hf2 = strong_target hf1 \<and>
             map_option length (weak_target hf2) = (if has_weak_labels md then Some (Suc n) else None)"
  proof (cases "has_weak_labels md")
    case True
    then have ww: "write_weak_target cfg (audio_dict md) n name hf1 = (hf2, None)"
      using w e2 by (simp add: r_def)
    have m: "map_option length (weak_target hf1) = Some n"
      using assms(2) True fv(3) by (simp add: rows_written_def)
    from write_weak_target_success[OF ww m] m True show ?thesis by auto
  next
    case False
    then have "hf2 = hf1" using w by (simp add: r_def)
    with False assms(2) fv(3) show ?thesis by (simp add: rows_written_def)
  qed
  have hf': "feature hf' = feature hf2 \<and> video_feature hf' = video_feature hf2 \<and>
             weak_target hf' = weak_target hf2 \<and>
             map_option length (strong_target hf') = (if has_strong_labels md then Some (Suc n) else None)"
  proof (cases "has_strong_labels md")
    case True
    then have ss: "write_strong_target cfg (audio_dict md) n name hf2 = (hf', None)"
      using s by simp
    have m: "map_option length (strong_target hf2) = Some n"
      using assms(2) True fv(3) hf2 by (simp add: rows_written_def)
    from write_strong_target_success[OF ss m] m True show ?thesis by auto
  next
    case False
    then have "hf' = hf2" using s by simp
    with False assms(2) fv(3) hf2 show ?thesis by (simp add: rows_written_def)
  qed
  have "feature hf' = feature hf @ [fr]" "video_feature hf' = video_feature hf @ [v]"
    using hf' hf2 fv(3) by simp_all
  moreover have "rows_written md (Suc n) hf'"
    using hf' hf2 fv(3) l by (simp add: rows_written_def)
  ultimately show ?thesis using fv(1,2) by blast
qed

subsection \<open>The loop\<close>

lemma items_loop_names:
  "audio_name (fst (items_loop cfg lib env ex md ad vd items hf)) = audio_name hf \<and>
   video_name (fst (items_loop cfg lib env ex md ad vd items hf)) = video_name hf"
proof (induction items arbitrary: hf)
  case Nil
  then show ?case by simp
next
  case (Cons item items)
  obtain n name where item: "item = (n, name)" by (cases item)
  obtain hf1 e1 where w: "write_item cfg lib env ex md ad vd n name hf = (hf1, e1)"
    by (metis surj_pair)
  have n1: "audio_name hf1 = audio_name hf" "video_name hf1 = video_name hf"
    using write_item_names[of cfg lib env ex md ad vd n name hf] w by simp_all
  show ?case
  proof (cases e1)
    case None
    with item w n1 Cons.IH[of hf1] show ?thesis by simp
  next
    case (Some e)
    with item w n1 show ?thesis by simp
  qed
qed

lemma items_loop_success:
  assumes "items_loop cfg lib env ex md ad vd (enumerate k names) hf = (hf', None)"
    and "rows_written md k hf"
  shows "rows_written md (k + length names) hf' \<and>
         take k (feature hf') = feature hf \<and> take k (video_feature hf') = video_feature hf \<and>
         (\<forall>i<length names.
            item_feature_row cfg lib env ex ad (names ! i) = Inr (feature hf' ! (k + i)) \<and>
            item_video_row cfg env vd (names ! i) = Inr (video_feature hf' ! (k + i)))"
  using assms
proof (induction names arbitrary: k hf)
  case Nil
  then show ?case by (simp add: rows_written_def)
next
  case (Cons name names)
  obtain hf1 e1 where w: "write_item cfg lib env ex md ad vd k name hf = (hf1, e1)"
    by (metis surj_pair)
  have e1: "e1 = None" using Cons.prems(1) w by (cases e1) simp_all
  have rest: "items_loop cfg lib env ex md ad vd (enumerate (Suc k) names) hf1 = (hf', None)"
    using Cons.prems(1) w e1 by simp
  from write_item_success[OF w[unfolded e1] Cons.prems(2)] obtain f v where fv:
    "rows_written md (Suc k) hf1"
    "item_feature_row cfg lib env ex ad name = Inr f" "item_video_row cfg env vd name = Inr v"
    "feature hf1 = feature hf @ [f]" "video_feature hf1 = video_feature hf @ [v]"
    by blast
  from Cons.IH[OF rest fv(1)] have ih:
    "rows_written md (Suc k + length names) hf'"
    "take (Suc k) (feature hf') = feature hf1" "take (Suc k) (video_feature hf') = video_feature hf1"
    "\<forall>i<length names.
        item_feature_row cfg lib env ex ad (names ! i) = Inr (feature hf' ! (Suc k + i)) \<and>
        item_video_row cfg env vd (names ! i) = Inr (video_feature hf' ! (Suc k + i))"
    by simp_all
  have lk: "length (feature hf) = k" "length (video_feature hf) = k"
    using Cons.prems(2) by (simp_all add: rows_written_def)
  have tk: "take k (feature hf') = feature hf" "take k (video_feature hf') = video_feature hf"
  proof -
    have "take k (take (Suc k) (feature hf')) = take k (feature hf @ [f])"
      using ih(2) fv(4) by simp
    then show "take k (feature hf') = feature hf" using lk by (simp add: min_def)
    have "take k (take (Suc k) (video_feature hf')) = take k (video_feature hf @ [v])"
      using ih(3) fv(5) by simp
    then show "take k (video_feature hf') = video_feature hf" using lk by (simp add: min_def)
  qed
  have at_k: "feature hf' ! k = f" "video_feature hf' ! k = v"
  proof -
    have "take (Suc k) (feature hf') ! k = (feature hf @ [f]) ! k" using ih(2) fv(4) by simp
    then show "feature hf' ! k = f" using lk by (auto simp: nth_append)
    have "take (Suc k) (video_feature hf') ! k = (video_feature hf @ [v]) ! k"
      using ih(3) fv(5) by simp
    then show "video_feature hf' ! k = v" using lk by (auto simp: nth_append)
  qed
  have "\<forall>i<length (name # names).
            item_feature_row cfg lib env ex ad ((name # names) ! i) = Inr (feature hf' ! (k + i)) \<and>
            item_video_row cfg env vd ((name # names) ! i) = Inr (video_feature hf' ! (k + i))"
  proof (intro allI impI)
    fix i assume i: "i < length (name # names)"
    show "item_feature_row cfg lib env ex ad ((name # names) ! i) = Inr (feature hf' ! (k + i)) \<and>
            item_video_row cfg env vd ((name # names) ! i) = Inr (video_feature hf' ! (k + i))"
    proof (cases i)
      case 0
      with fv(2,3) at_k show ?thesis by simp
    next
      case (Suc j)
      with i ih(4) show ?thesis by simp
    qed
  qed
  with ih(1) tk show ?case by simp
qed


subsection \<open>A whole run\<close>

text \<open>
  With \<^verbatim>\<open>mini_data\<close> false, as the source has it. The archive of every run has the
  sorted item names as \<open>audio_name\<close> and the separately sorted video names as
  \<open>video_name\<close>. After a run without exception over \<open>N\<close> items every dataset has \<open>N\<close>
  rows, and row \<open>i\<close> of \<open>feature\<close> and of \<open>video_feature\<close> is computed from the files of
  the item \<open>audio_names[i]\<close>.
\<close>

lemma builder_unfold:
  "calculate_feature_for_all_audio_files cfg lib env data_type False w =
     (let feature_path = archive_path_of env (''files'' @ [CHR 0x5C]) ''features'' []
                           (cfg_frames_per_second cfg) (cfg_mel_bins cfg)
                           (get_relative_path_no_extension env data_type);
          w1 = create_folder (path_dirname env feature_path) w;
          r = items_loop cfg lib env (config_extractor lib cfg) (run_metadata env data_type)
                (run_media_dir env ''audio'' data_type) (run_media_dir env ''video'' data_type)
                (enumerate 0 (sort (map fst (audio_dict (run_metadata env data_type)))))
                (initial_archive (run_metadata env data_type))
      in (w1\<lparr>h5_files := (h5_files w1)(feature_path \<mapsto> FeatureFile (fst r)),
              io_log := Open_write feature_path # io_log w1\<rparr>, snd r))"
  by (simp add: calculate_feature_for_all_audio_files_def Let_def config_extractor_def
      run_metadata_def run_media_dir_def initial_archive_def split: prod.splits)

lemma written_archive_builder:
  "written_archive (fst (calculate_feature_for_all_audio_files cfg lib env data_type False w)) =
     Some (fst (items_loop cfg lib env (config_extractor lib cfg) (run_metadata env data_type)
                (run_media_dir env ''audio'' data_type) (run_media_dir env ''video'' data_type)
                (enumerate 0 (sort (map fst (audio_dict (run_metadata env data_type)))))
                (initial_archive (run_metadata env data_type))))"
  by (simp add: builder_unfold Let_def written_archive_def)

lemma archive_names:
  "\<exists>a. written_archive (fst (calculate_feature_for_all_audio_files cfg lib env data_type False w))
          = Some a \<and>
       audio_name a = map encode_S64 (sort (map fst (audio_dict (run_metadata env data_type)))) \<and>
       video_name a =
         map encode_S64 (sort (map replace_wav_avi (map fst (audio_dict (run_metadata env data_type)))))"
  using items_loop_names[of cfg lib env "config_extractor lib cfg" "run_metadata env data_type"
      "run_media_dir env ''audio'' data_type" "run_media_dir env ''video'' data_type"
      "enumerate 0 (sort (map fst (audio_dict (run_metadata env data_type))))"
      "initial_archive (run_metadata env data_type)"]
  by (simp add: written_archive_builder initial_archive_def)

lemma archive_rows:
  assumes "calculate_feature_for_all_audio_files cfg lib env data_type False w = (w', None)"
  shows "\<exists>a. written_archive w' = Some a \<and>
           rows_written (run_metadata env data_type) (length (audio_dict (run_metadata env data_type))) a \<and>
           length (audio_name a) = length (audio_dict (run_metadata env data_type)) \<and>
           length (video_name a) = length (audio_dict (run_metadata env data_type)) \<and>
           (\<forall>i<length (audio_dict (run_metadata env data_type)).
              item_feature_row cfg lib env (config_extractor lib cfg) (run_media_dir env ''audio'' data_type)
                (sort (map fst (audio_dict (run_metadata env data_type))) ! i) = Inr (feature a ! i) \<and>
              item_video_row cfg env (run_media_dir env ''video'' data_type)
                (sort (map fst (audio_dict (run_metadata env data_type))) ! i) = Inr (video_feature a ! i))"
proof -
  let ?md = "run_metadata env data_type"
  let ?names = "sort (map fst (audio_dict ?md))"
  let ?loop = "items_loop cfg lib env (config_extractor lib cfg) ?md
                (run_media_dir env ''audio'' data_type) (run_media_dir env ''video'' data_type)
                (enumerate 0 ?names) (initial_archive ?md)"
  obtain a e where l: "?loop = (a, e)" by (metis surj_pair)
  have e: "e = None" using assms l by (simp add: builder_unfold Let_def)
  have wa: "written_archive w' = Some a"
    using written_archive_builder[of cfg lib env data_type w] assms l by simp
  have init: "rows_written ?md 0 (initial_archive ?md)"
    by (simp add: rows_written_def initial_archive_def)
  from items_loop_success[OF l[unfolded e] init] have s:
    "rows_written ?md (length ?names) a"
    "\<forall>i<length ?names.
        item_feature_row cfg lib env (config_extractor lib cfg) (run_media_dir env ''audio'' data_type)
          (?names ! i) = Inr (feature a ! i) \<and>
        item_video_row cfg env (run_media_dir env ''video'' data_type) (?names ! i)
          = Inr (video_feature a ! i)"
    by simp_all
  have n: "audio_name a = map encode_S64 ?names"
    "video_name a = map encode_S64 (sort (map replace_wav_avi (map fst (audio_dict ?md))))"
    using items_loop_names[of cfg lib env "config_extractor lib cfg" ?md
      "run_media_dir env ''audio'' data_type" "run_media_dir env ''video'' data_type"
      "enumerate 0 ?names" "initial_archive ?md"] l by (simp_all add: initial_archive_def)
  have "length (audio_name a) = length (audio_dict ?md)" "length (video_name a) = length (audio_dict ?md)"
    using n by simp_all
  with wa s show ?thesis by simp
qed

subsection \<open>A corpus on which the names lose their alignment\<close>

text \<open>
  The corpus \<open>two_items\<close> has the items \<^verbatim>\<open>a.wav\<close> and \<^verbatim>\<open>a.b.wav\<close>. Sorted, \<^verbatim>\<open>a.b.wav\<close>
  comes first; their video names sort the other way round, \<^verbatim>\<open>a.avi\<close> before
  \<^verbatim>\<open>a.b.avi\<close>.
\<close>

lemma two_items_metadata:
  "run_metadata two_items d =
     \<lparr>audio_dict = [(''a.wav'', \<lparr>weak_labels = [], strong_labels = []\<rparr>),
                     (''a.b.wav'', \<lparr>weak_labels = [], strong_labels = []\<rparr>)],
      has_weak_labels = False, has_strong_labels = False\<rparr>"
  by (simp add: run_metadata_def two_items_def)

lemma two_items_sorted:
  "sort [''a.wav'', ''a.b.wav''] = [''a.b.wav'', ''a.wav'']"
  "sort (map replace_wav_avi [''a.wav'', ''a.b.wav'']) = [''a.avi'', ''a.b.avi'']"
  "replace_wav_avi ''a.wav'' = ''a.avi''" "replace_wav_avi ''a.b.wav'' = ''a.b.avi''"
  "sort [''a.avi'', ''a.b.avi''] = [''a.avi'', ''a.b.avi'']"
  by code_simp+

lemma small_transform:
  "transform example_lib (config_extractor example_lib small_config) (pad_truncate_sequence [0] 1)
     = Inr [[0], [0]]"
  by (simp add: transform_def example_lib_def config_extractor_def small_config_def
      LogMelExtractor_init_def pad_truncate_sequence_def np_dot_def Let_def)

lemma small_video:
  "snd (video3d_frames [Some p] 1 1 1 True True) = Inr \<lparr>nd_shape = [1, 1, 1, 3], nd_sources = [p]\<rparr>"
  by (simp add: video3d_frames_def VideoCapture_def cap_get_frame_count_def cap_set_pos_frames_def
      cap_read_def cv_resize_def np_array_def np_transpose_def cap_release_def Let_def)

lemma small_item_feature:
  "item_feature small_config example_lib two_items (config_extractor example_lib small_config) ad name
     = Inr [[0], [0]]"
  using small_transform
  by (simp add: item_feature_def two_items_def small_config_def)

lemma small_item_video:
  "item_video_feature small_config two_items vd name
     = Inr \<lparr>nd_shape = [1, 1, 1, 3], nd_sources = [vd @ ''/'' @ replace_wav_avi name]\<rparr>"
  using small_video[of "vd @ ''/'' @ replace_wav_avi name"]
  by (simp add: item_video_feature_def two_items_def small_config_def)


lemma small_item_feature_row:
  "item_feature_row small_config example_lib two_items (config_extractor example_lib small_config)
     ad name = Inr [[0], [0]]"
proof -
  have "matrix_shape_is (cfg_frames_num small_config) (cfg_mel_bins small_config) [[0], [0::real]]"
    by (simp add: matrix_shape_is_def small_config_def)
  from stored_feature_exact[OF this] show ?thesis
    by (simp only: item_feature_row_def small_item_feature sum.case)
qed

lemma small_item_video_row:
  "item_video_row small_config two_items vd name
     = Inr \<lparr>nd_shape = [1, 1, 1, 3], nd_sources = [vd @ ''/'' @ replace_wav_avi name]\<rparr>"
  by (rule item_video_row_success) (rule small_item_video)

lemma write_item_run_unlabelled:
  assumes "\<not> has_weak_labels md" and "\<not> has_strong_labels md"
    and "write_features cfg lib env ex ad vd n name hf = (hf', None)"
  shows "write_item cfg lib env ex md ad vd n name hf = (hf', None)"
  using assms by (simp add: write_item_def)

text \<open>
  Claim C1 has every dataset of the archive of leading dimension \<open>N\<close> after a run over
  \<open>N\<close> item names, and \<open>audio_name[i]\<close>, \<open>video_name[i]\<close>, \<open>feature[i]\<close> and
  \<open>video_feature[i]\<close> refer to the same item for every \<open>i\<close>. The dimensions are as
  claimed, and so is the alignment of \<open>audio_name\<close> with both feature datasets
  (\<open>archive_rows\<close> above). The dataset \<open>video_name\<close> is not aligned: it is the list of
  video names sorted on its own, while the loop follows the sorted audio names. On
  the corpus \<open>two_items\<close> the run ends without exception, \<open>audio_name[0]\<close> is
  \<^verbatim>\<open>a.b.wav\<close> and \<open>video_feature[0]\<close> is made from the file \<^verbatim>\<open>a.b.avi\<close>, but
  \<open>video_name[0]\<close> is \<^verbatim>\<open>a.avi\<close>.
\<close>

theorem video_name_misaligned:
  "snd (calculate_feature_for_all_audio_files small_config example_lib two_items
          ''train_synthetic'' False empty_world) = None \<and>
   map_option audio_name
     (written_archive (fst (calculate_feature_for_all_audio_files small_config example_lib
        two_items ''train_synthetic'' False empty_world)))
     = Some [''a.b.wav'', ''a.wav''] \<and>
   map_option video_name
     (written_archive (fst (calculate_feature_for_all_audio_files small_config example_lib
        two_items ''train_synthetic'' False empty_world)))
     = Some [''a.avi'', ''a.b.avi''] \<and>
   map_option (\<lambda>a. map nd_sources (video_feature a))
     (written_archive (fst (calculate_feature_for_all_audio_files small_config example_lib
        two_items ''train_synthetic'' False empty_world)))
     = Some [[''files'' @ [CHR 0x5C] @ ''/video/train_synthetic/a.b.avi''],
             [''files'' @ [CHR 0x5C] @ ''/video/train_synthetic/a.avi'']]"
proof -
  let ?cfg = small_config
  let ?ex = "config_extractor example_lib small_config"
  let ?md = "run_metadata two_items ''train_synthetic''"
  let ?ad = "run_media_dir two_items ''audio'' ''train_synthetic''"
  let ?vd = "run_media_dir two_items ''video'' ''train_synthetic''"
  let ?hf0 = "initial_archive ?md :: string archive"
  define v0 where "v0 = \<lparr>nd_shape = [1, 1, 1, 3], nd_sources = [?vd @ ''/'' @ ''a.b.avi'']\<rparr>"
  define v1 where "v1 = \<lparr>nd_shape = [1, 1, 1, 3], nd_sources = [?vd @ ''/'' @ ''a.avi'']\<rparr>"
  define hf1 where "hf1 = ?hf0\<lparr>feature := [[[0], [0]]], video_feature := [v0]\<rparr>"
  define hf2 where "hf2 = ?hf0\<lparr>feature := [[[0], [0]], [[0], [0]]], video_feature := [v0, v1]\<rparr>"
  have md: "\<not> has_weak_labels ?md" "\<not> has_strong_labels ?md"
    by (simp_all add: two_items_metadata)
  have names: "sort (map fst (audio_dict ?md)) = [''a.b.wav'', ''a.wav'']"
    by (simp add: two_items_metadata two_items_sorted)
  have iv0: "item_video_row ?cfg two_items ?vd ''a.b.wav'' = Inr v0"
    by (simp add: small_item_video_row two_items_sorted v0_def)
  have iv1: "item_video_row ?cfg two_items ?vd ''a.wav'' = Inr v1"
    by (simp add: small_item_video_row two_items_sorted v1_def)
  have w0: "write_features ?cfg example_lib two_items ?ex ?ad ?vd 0 ''a.b.wav'' ?hf0 = (hf1, None)"
    using write_features_run[OF small_item_feature_row iv0, of ?hf0 0]
    by (simp add: initial_archive_def hf1_def)
  have w1: "write_features ?cfg example_lib two_items ?ex ?ad ?vd 1 ''a.wav'' hf1 = (hf2, None)"
    using write_features_run[OF small_item_feature_row iv1, of hf1 1]
    by (simp add: initial_archive_def hf1_def hf2_def)
  have loop: "items_loop ?cfg example_lib two_items ?ex ?md ?ad ?vd
                (enumerate 0 (sort (map fst (audio_dict ?md)))) ?hf0 = (hf2, None)"
    using write_item_run_unlabelled[OF md w0] write_item_run_unlabelled[OF md w1]
    by (simp add: names)
  have run: "snd (calculate_feature_for_all_audio_files small_config example_lib two_items
          ''train_synthetic'' False empty_world) = None"
    using loop by (simp add: builder_unfold Let_def)
  have wa: "written_archive (fst (calculate_feature_for_all_audio_files small_config example_lib
        two_items ''train_synthetic'' False empty_world)) = Some hf2"
    using loop by (simp add: written_archive_builder)
  have vd: "?vd = ''files'' @ [CHR 0x5C] @ ''/video/train_synthetic''"
    by (simp add: run_media_dir_def two_items_def)
  have "audio_name hf2 = [''a.b.wav'', ''a.wav'']"
    by (simp add: hf2_def initial_archive_def names encode_S64_def)
  moreover have "video_name hf2 = [''a.avi'', ''a.b.avi'']"
    by (simp add: hf2_def initial_archive_def two_items_metadata two_items_sorted encode_S64_def)
  moreover have "map nd_sources (video_feature hf2) =
      [[''files'' @ [CHR 0x5C] @ ''/video/train_synthetic/a.b.avi''],
       [''files'' @ [CHR 0x5C] @ ''/video/train_synthetic/a.avi'']]"
    by (simp add: hf2_def v0_def v1_def vd)
  ultimately show ?thesis using run wa by simp
qed

subsection \<open>The stored audio feature row\<close>

text \<open>
  Claim C7, in the form that holds. The configuration constants are parameters, and
  the two library calls return arrays of their documented shapes. For every item whose
  audio is read and whose video is extracted, after the raw audio is padded or
  truncated to \<open>total_samples\<close>, the transform returns a matrix of exactly
  \<open>1 + total_samples div hop_size\<close> rows and \<open>mel_bins\<close> columns, and its slice
  \<open>feature[0 : frames_num]\<close> has \<open>min frames_num (1 + total_samples div hop_size)\<close> rows. When
  the configuration has \<open>frames_num \<le> 1 + total_samples div hop_size\<close>, the slice has
  exactly \<open>frames_num\<close> rows and \<open>mel_bins\<close> columns and the loop body stores it, as it
  is, as row \<open>n\<close> of the dataset \<open>feature\<close>.
\<close>

theorem stored_feature_row_shape:
  assumes stft: "stft_shape_contract lib (cfg_window_size cfg) (cfg_hop_size cfg) (cfg_total_samples cfg)"
    and mel: "mel_shape_contract lib cfg"
    and bins: "0 < cfg_mel_bins cfg"
    and audio: "read_audio env (path_join env ad name) (cfg_sample_rate cfg) = Inr audio0"
    and video: "item_video_feature cfg env vd name = Inr v"
    and rows: "length (feature hf) = n" "length (video_feature hf) = n"
  shows "\<exists>feature0.
           transform lib (config_extractor lib cfg)
             (pad_truncate_sequence audio0 (cfg_total_samples cfg)) = Inr feature0 \<and>
           matrix_shape_is (1 + cfg_total_samples cfg div cfg_hop_size cfg) (cfg_mel_bins cfg)
             feature0 \<and>
           matrix_shape_is (min (cfg_frames_num cfg) (1 + cfg_total_samples cfg div cfg_hop_size cfg))
             (cfg_mel_bins cfg) (take (cfg_frames_num cfg) feature0) \<and>
           (cfg_frames_num cfg \<le> 1 + cfg_total_samples cfg div cfg_hop_size cfg \<longrightarrow>
              matrix_shape_is (cfg_frames_num cfg) (cfg_mel_bins cfg)
                (take (cfg_frames_num cfg) feature0) \<and>
              write_features cfg lib env (config_extractor lib cfg) ad vd n name hf =
                (hf\<lparr>feature := feature hf @ [take (cfg_frames_num cfg) feature0],
                    video_feature := video_feature hf @ [v]\<rparr>, None))"
proof -
  let ?y = "pad_truncate_sequence audio0 (cfg_total_samples cfg)"
  let ?N = "1 + cfg_total_samples cfg div cfg_hop_size cfg"
  have ly: "length ?y = cfg_total_samples cfg"
    by (rule length_pad_truncate_sequence)
  have stft': "stft_shape_contract lib (cfg_window_size cfg) (cfg_hop_size cfg) (length ?y)"
    using stft by (simp only: ly)
  from transform_shape[OF stft' mel bins] obtain F where F:
    "transform lib (config_extractor lib cfg) ?y = Inr F"
    "matrix_shape_is ?N (cfg_mel_bins cfg) F"
    by (auto simp only: ly)
  have slice: "matrix_shape_is (min (cfg_frames_num cfg) ?N) (cfg_mel_bins cfg)
                 (take (cfg_frames_num cfg) F)"
    using F(2) by (simp add: matrix_shape_is_nth min.commute)
  have stored: "matrix_shape_is (cfg_frames_num cfg) (cfg_mel_bins cfg) (take (cfg_frames_num cfg) F) \<and>
      write_features cfg lib env (config_extractor lib cfg) ad vd n name hf =
        (hf\<lparr>feature := feature hf @ [take (cfg_frames_num cfg) F],
            video_feature := video_feature hf @ [v]\<rparr>, None)"
    if le: "cfg_frames_num cfg \<le> ?N"
  proof -
    have sh: "matrix_shape_is (cfg_frames_num cfg) (cfg_mel_bins cfg) (take (cfg_frames_num cfg) F)"
      using slice le by (simp add: min_def)
    have "item_feature cfg lib env (config_extractor lib cfg) ad name = Inr (take (cfg_frames_num cfg) F)"
      using audio F(1) by (simp add: item_feature_def)
    then have fr: "item_feature_row cfg lib env (config_extractor lib cfg) ad name
                     = Inr (take (cfg_frames_num cfg) F)"
      using stored_feature_exact[OF sh] by (simp add: item_feature_row_def)
    from write_features_run[OF fr item_video_row_success[OF video] rows] sh show ?thesis
      by simp
  qed
  with F slice show ?thesis by blast
qed

text \<open>
  The theorem at the ten-second configuration, 641 frames for 640 stored, and the first
  item of an empty archive.
\<close>

theorem stored_feature_row_shape_witness:
  "\<exists>feature0 hf'.
     transform example_lib (config_extractor example_lib example_config)
       (pad_truncate_sequence [0] 320000) = Inr feature0 \<and>
     matrix_shape_is 641 64 feature0 \<and>
     matrix_shape_is 640 64 (take 640 feature0) \<and>
     write_features example_config example_lib two_items
       (config_extractor example_lib example_config) ''audio'' ''video'' 0 ''a.wav''
       (initial_archive (run_metadata two_items ''train_synthetic'')) = (hf', None) \<and>
     feature hf' = [take 640 feature0]"
proof -
  let ?hf = "initial_archive (run_metadata two_items ''train_synthetic'') :: string archive"
  let ?p = "path_join two_items ''video'' (replace_wav_avi ''a.wav'')"
  have bins: "0 < cfg_mel_bins example_config"
    by (simp add: example_config_def)
  have audio: "read_audio two_items (path_join two_items ''audio'' ''a.wav'')
                 (cfg_sample_rate example_config) = Inr [0]"
    by (simp add: two_items_def)
  have vf: "video_file two_items ?p = [Some ?p]"
    by (simp add: two_items_def)
  have cv: "cfg_video_feature_dim example_config = 32" "cfg_video_fps example_config = 25"
    by (simp_all add: example_config_def)
  have "\<exists>cap t. video3d_frames [Some ?p] 32 32 25 True True = (cap, Inr t) \<and>
          nd_shape t = [32, 32, 25, 3] \<and> released cap"
    by (rule video3d_frames_color_shape) simp_all
  then obtain cap t where "video3d_frames [Some ?p] 32 32 25 True True = (cap, Inr t)"
    by blast
  then have video: "item_video_feature example_config two_items ''video'' ''a.wav'' = Inr t"
    unfolding item_video_feature_def vf cv by simp
  have rows: "length (feature ?hf) = 0" "length (video_feature ?hf) = 0"
    by (simp_all add: initial_archive_def)
  have c: "cfg_total_samples example_config = 320000" "cfg_frames_num example_config = 640"
    "cfg_mel_bins example_config = 64" "cfg_hop_size example_config = 500"
    by (simp_all add: example_config_def)
  have n: "1 + (320000::nat) div 500 = 641" "min (640::nat) 641 = 640"
    by simp_all
  have le: "(640::nat) \<le> 641"
    by simp
  note inst = stored_feature_row_shape[OF example_lib_stft example_lib_mel bins audio video rows,
      unfolded c n]
  from inst le obtain feature0 where f:
    "transform example_lib (config_extractor example_lib example_config)
       (pad_truncate_sequence [0] 320000) = Inr feature0"
    "matrix_shape_is 641 64 feature0"
    "matrix_shape_is 640 64 (take 640 feature0)"
    "write_features example_config example_lib two_items
       (config_extractor example_lib example_config) ''audio'' ''video'' 0 ''a.wav'' ?hf
       = (?hf\<lparr>feature := feature ?hf @ [take 640 feature0],
               video_feature := video_feature ?hf @ [t]\<rparr>, None)"
    by blast
  have e: "feature ?hf = []"
    by (simp add: initial_archive_def)
  have "feature (?hf\<lparr>feature := feature ?hf @ [take 640 feature0],
               video_feature := video_feature ?hf @ [t]\<rparr>) = [take 640 feature0]"
    by (simp add: e)
  with f show ?thesis by blast
qed

text \<open>
  The claim as first stated holds for no configuration that asks for more frames than
  a clip of \<open>total_samples\<close> samples has. With one sample, hop size \<open>1\<close> and three frames
  asked, the transform returns two rows, the slice keeps both, and the assignment of
  two rows to a row of three raises TypeError.
\<close>

theorem stored_feature_row_shape_counterexample:
  "transform example_lib (config_extractor example_lib short_config)
     (pad_truncate_sequence [0] (cfg_total_samples short_config)) = Inr [[0], [0]] \<and>
   cfg_frames_num short_config = 3 \<and>
   take (cfg_frames_num short_config) [[0], [0 :: real]] = [[0], [0]] \<and>
   snd (write_features short_config example_lib two_items
          (config_extractor example_lib short_config) ''audio'' ''video'' 0 ''a.wav''
          (initial_archive (run_metadata two_items ''train_synthetic''))) = Some TypeError"
proof -
  have t: "transform example_lib (config_extractor example_lib short_config)
             (pad_truncate_sequence [0] (cfg_total_samples short_config)) = Inr [[0], [0]]"
    by (simp add: transform_def example_lib_def config_extractor_def short_config_def
        small_config_def LogMelExtractor_init_def pad_truncate_sequence_def np_dot_def Let_def)
  have c: "cfg_frames_num short_config = 3" "cfg_mel_bins short_config = 1"
    "cfg_video_feature_dim short_config = 1" "cfg_video_fps short_config = 1"
    by (simp_all add: short_config_def small_config_def)
  have a: "h5_assign_matrix 3 1 old [[0], [0 :: real]] = Inl TypeError" for old
    by (simp add: h5_assign_matrix_def np_shape2_def)
  have "snd (write_features short_config example_lib two_items
          (config_extractor example_lib short_config) ''audio'' ''video'' 0 ''a.wav''
          (initial_archive (run_metadata two_items ''train_synthetic''))) = Some TypeError"
    using t small_video[of "''video'' @ ''/'' @ replace_wav_avi ''a.wav''"] a
    by (simp add: write_features_def c two_items_def Let_def)
  with t c(1) show ?thesis by simp
qed

section \<open>Properties of the scalar reducer\<close>

text \<open>
  Claim C9. If scalar computation is requested for a data split other than
  \<^verbatim>\<open>'train_synthetic'\<close>, the supported one, \<^verbatim>\<open>calculate_scalar\<close> fails with the assertion
  error before any file operation: the file system is the one it started with, log
  included, so that no folder is made, no archive is opened and no scalar file is
  created or changed.
\<close>

theorem calculate_scalar_unsupported_split:
  assumes "data_type \<noteq> ''train_synthetic''"
  shows "calculate_scalar cfg env data_type mini_data w = (w, Some AssertionError)"
  using assms by (simp add: calculate_scalar_def)

text \<open>The theorem at the split \<^verbatim>\<open>'validation'\<close>, for every configuration and file system.\<close>

theorem calculate_scalar_unsupported_split_witness:
  "\<forall>cfg (env :: (string, unit) collaborators) w.
     calculate_scalar cfg env ''validation'' False w = (w, Some AssertionError)"
proof -
  have h: "''validation'' \<noteq> ''train_synthetic''" by simp
  show ?thesis using calculate_scalar_unsupported_split[OF h] by blast
qed

text \<open>
  For the supported split the first operations are the folder and the read of the
  feature archive, as the log shows when that archive is missing.
\<close>

lemma features_subdir_small: "features_subdir [] 1 (Suc 0) = ''logmel_1frames_1melbins''"
  by code_simp

lemma calculate_scalar_missing_archive:
  "calculate_scalar small_config two_items ''train_synthetic'' False empty_world =
     (\<lparr>folders = {''dir''}, h5_files = Map.empty,
       io_log = [Open_read (''files'' @ [CHR 0x5C] @ ''/features/logmel_1frames_1melbins/train_synthetic.h5''),
                 Make_folder ''dir'']\<rparr>,
      Some IOError)"
  by (simp add: calculate_scalar_def small_config_def two_items_def empty_world_def
      archive_path_of_def features_subdir_small create_folder_def Let_def)

end
